theory Spec2Isabelle
  imports Main "HOL-Library.Sublist" "HOL-Library.Word"
begin

section \<open>JavaScript values used by the validator\<close>

text \<open>
  A JavaScript Number, as far as \<open>parseInt\<close> can produce one: \<open>NaN\<close>, an integer-valued
  double, or an infinity. \<open>+0\<close> and \<open>-0\<close> are both \<open>Finite 0\<close>: the strict comparison
  \<open>===\<close> does not tell them apart.
\<close>

datatype number = NaN | Finite int | PosInfinity | NegInfinity

text \<open>\<open>a !== b\<close> on Numbers: \<open>NaN\<close> differs from everything, itself included.\<close>

definition strict_neq :: "number \<Rightarrow> number \<Rightarrow> bool" where
  "strict_neq a b = (a = NaN \<or> b = NaN \<or> a \<noteq> b)"

fun bit_length :: "nat \<Rightarrow> nat" where
  "bit_length n = (if n = 0 then 0 else Suc (bit_length (n div 2)))"

declare bit_length.simps [simp del]

text \<open>
  The Number value of a non-negative mathematical integer: the nearest double, ties to
  even, with 53 bits of significand; from \<open>2 ^ 1024\<close> on the result is an infinity.
\<close>

definition round_to_double :: "nat \<Rightarrow> nat option" where
  "round_to_double n =
     (if n < 2 ^ 53 then Some n
      else
        let e = bit_length n - 53;
            q = n div 2 ^ e;
            r = n mod 2 ^ e;
            half = 2 ^ (e - 1);
            q' = (if half < r \<or> (r = half \<and> odd q) then q + 1 else q);
            m = q' * 2 ^ e
        in if 2 ^ 1024 \<le> m then None else Some m)"

definition to_number :: "bool \<Rightarrow> nat \<Rightarrow> number" where
  "to_number negative n =
     (case round_to_double n of
        None \<Rightarrow> (if negative then NegInfinity else PosInfinity)
      | Some m \<Rightarrow> Finite (if negative then - int m else int m))"

definition hex_value :: "char \<Rightarrow> nat option" where
  "hex_value c =
     (let n = (of_char c :: nat) in
      if 48 \<le> n \<and> n \<le> 57 then Some (n - 48)
      else if 97 \<le> n \<and> n \<le> 102 then Some (n - 87)
      else if 65 \<le> n \<and> n \<le> 70 then Some (n - 55)
      else None)"

fun hex_digits :: "string \<Rightarrow> nat list" where
  "hex_digits [] = []"
| "hex_digits (c # cs) = (case hex_value c of None \<Rightarrow> [] | Some d \<Rightarrow> d # hex_digits cs)"

definition math_int :: "nat list \<Rightarrow> nat" where
  "math_int ds = foldl (\<lambda>a d. 16 * a + d) 0 ds"

definition is_white_space :: "char \<Rightarrow> bool" where
  "is_white_space c = ((of_char c :: nat) \<in> {9, 10, 11, 12, 13, 32, 160})"

definition strip_sign :: "string \<Rightarrow> bool \<times> string" where
  "strip_sign s =
     (case s of
        [] \<Rightarrow> (False, s)
      | c # cs \<Rightarrow> if c = CHR ''-'' then (True, cs) else if c = CHR ''+'' then (False, cs) else (False, s))"

definition strip_0x :: "string \<Rightarrow> string" where
  "strip_0x s =
     (case s of
        c # d # rest \<Rightarrow> if c = CHR ''0'' \<and> (d = CHR ''x'' \<or> d = CHR ''X'') then rest else s
      | _ \<Rightarrow> s)"

text \<open>
  \<open>parseInt(s, 16)\<close>: leading white space is dropped, then a sign, then a \<open>0x\<close> or
  \<open>0X\<close> prefix; the longest run of hexadecimal digits that follows is the value, and
  anything after it is ignored. No digit at all gives \<open>NaN\<close>.
\<close>

definition parseInt16 :: "string \<Rightarrow> number" where
  "parseInt16 s =
     (let (negative, s1) = strip_sign (dropWhile is_white_space s);
          ds = hex_digits (strip_0x s1)
      in if ds = [] then NaN else to_number negative (math_int ds))"

text \<open>A template literal renders an integer-valued Number in decimal.\<close>

definition digit_char :: "nat \<Rightarrow> char" where
  "digit_char d = ''0123456789'' ! d"

fun decimal :: "nat \<Rightarrow> string" where
  "decimal n = (if n < 10 then [digit_char n] else decimal (n div 10) @ [digit_char (n mod 10)])"

declare decimal.simps [simp del]

definition show_int :: "int \<Rightarrow> string" where
  "show_int i = (if i < 0 then CHR ''-'' # decimal (nat (- i)) else decimal (nat i))"

section \<open>Content identifiers and their text forms\<close>

type_synonym byte = "8 word"

definition hex_char :: "nat \<Rightarrow> char" where
  "hex_char d = ''0123456789abcdef'' ! d"

text \<open>\<open>uint8arrays.toString(bytes, 'base16')\<close>: two lower-case digits per byte.\<close>

definition toString_base16 :: "byte list \<Rightarrow> string" where
  "toString_base16 bs = concat (map (\<lambda>b. [hex_char (unat b div 16), hex_char (unat b mod 16)]) bs)"

definition byte_bits :: "byte \<Rightarrow> bool list" where
  "byte_bits b = map (\<lambda>i. odd (unat b div 2 ^ i)) [7, 6, 5, 4, 3, 2, 1, 0]"

fun groups5 :: "bool list \<Rightarrow> bool list list" where
  "groups5 (a # b # c # d # e # rest) = [a, b, c, d, e] # groups5 rest"
| "groups5 [] = []"
| "groups5 xs = [take 5 (xs @ [False, False, False, False])]"

definition bits_value :: "bool list \<Rightarrow> nat" where
  "bits_value bs = foldl (\<lambda>a b. 2 * a + (if b then 1 else 0)) 0 bs"

definition base32_char :: "nat \<Rightarrow> char" where
  "base32_char n = ''abcdefghijklmnopqrstuvwxyz234567'' ! n"

text \<open>RFC 4648 base32, lower case, without padding.\<close>

definition toString_base32 :: "byte list \<Rightarrow> string" where
  "toString_base32 bs = map (base32_char \<circ> bits_value) (groups5 (concat (map byte_bits bs)))"

text \<open>
  A CID as the validator reads it: its version, its binary form, and the digest of its
  multihash (what \<open>decode(cid.multihash.bytes).digest\<close> returns on the multihash that a
  CID value carries).
\<close>

record cid =
  version :: nat
  bytes :: "byte list"
  digest :: "byte list"

section \<open>Errors\<close>

datatype error =
    UnsupportedNamespace string
  | UnsupportedChain string string
  | NoProviderAvailable string
  | ProviderChainMismatch string "string option"
  | FailedToLoadTransaction string bool
  | FailedToLoadBlock int string bool
  | RootNotInTransaction string
  | BlockNumbersDiffer int int
  | BlockTimestampsDiffer int int
  | CannotEncodeV0
  | ProviderFailure string

text \<open>
  \<open>cid.toString(base16)\<close>: a version 1 CID is its binary form in lower-case hexadecimal
  after the multibase prefix \<open>f\<close>; a version 0 CID has a base58btc text form only and
  the call throws.
\<close>

definition cid_toString_base16 :: "cid \<Rightarrow> error + string" where
  "cid_toString_base16 c =
     (if version c = 0 then Inl CannotEncodeV0 else Inr (CHR ''f'' # toString_base16 (bytes c)))"

text \<open>\<open>cid.toString()\<close> of a version 1 CID: base32 after the multibase prefix \<open>b\<close>.\<close>

definition cid_toString :: "cid \<Rightarrow> string" where
  "cid_toString c = CHR ''b'' # toString_base32 (bytes c)"

text \<open>The text of each error, as the source's template literals build it.\<close>

definition try_endpoint :: string where
  "try_endpoint = ''. Try providing an ethereum rpc endpoint''"

fun message :: "error \<Rightarrow> string" where
  "message (UnsupportedNamespace chain) =
     ''Unsupported chainId '' @ [CHR 0x27] @ chain @ [CHR 0x27] @ '' - must be eip155 namespace''"
| "message (UnsupportedChain chain configured) =
     ''Unsupported chainId '' @ [CHR 0x27] @ chain @ [CHR 0x27]
       @ ''. Configured anchor service only supports '' @ [CHR 0x27] @ configured @ [CHR 0x27]"
| "message (NoProviderAvailable chain) = ''No ethereum provider available for chainId '' @ chain"
| "message (ProviderChainMismatch provider_chain configured) =
     ''Configured eth provider is for chainId '' @ provider_chain
       @ '', but our anchor service uses chain ''
       @ (case configured of None \<Rightarrow> ''undefined'' | Some c \<Rightarrow> c)"
| "message (FailedToLoadTransaction txHash suggest) =
     ''Failed to load transaction data for transaction '' @ txHash
       @ (if suggest then try_endpoint else [])"
| "message (FailedToLoadBlock blockNumber blockHash suggest) =
     ''Failed to load transaction data for block with block number '' @ show_int blockNumber
       @ '' and block hash '' @ blockHash @ (if suggest then try_endpoint else [])"
| "message (RootNotInTransaction root_text) =
     ''The root CID '' @ root_text @ '' is not in the transaction''"
| "message (BlockNumbersDiffer proof_number tx_number) =
     ''Block numbers are not the same. AnchorProof blockNumber: '' @ show_int proof_number
       @ '', eth txn blockNumber: '' @ show_int tx_number"
| "message (BlockTimestampsDiffer proof_time block_time) =
     ''Block timestamps are not the same. AnchorProof blockTimestamp: '' @ show_int proof_time
       @ '', eth txn blockTimestamp: '' @ show_int block_time"
| "message CannotEncodeV0 = ''Cannot string encode V0 in base16 encoding''"
| "message (ProviderFailure text) = text"

section \<open>The bounded cache\<close>

text \<open>
  Modelled from the spec: the cache class \<open>LRUMap\<close> comes from the package \<open>lru_map\<close>,
  which is not among the sources. The specification asks for a fixed maximum entry count
  and strict least-recently-used eviction: inserting beyond capacity evicts the
  least-recently-touched entry first. The entries are kept oldest first; a lookup that
  hits and every insertion make their entry the newest.
\<close>

record ('k, 'v) LRUMap =
  limit :: nat
  entries :: "('k \<times> 'v) list"

text \<open>Modelled from the spec: a new cache of the given capacity (\<open>new LRUMap(limit)\<close>), empty.\<close>

definition new_LRUMap :: "nat \<Rightarrow> ('k, 'v) LRUMap" where
  "new_LRUMap n = \<lparr>limit = n, entries = []\<rparr>"

text \<open>Modelled from the spec: reading an entry without touching it (\<open>find\<close>).\<close>

definition lru_find :: "('k, 'v) LRUMap \<Rightarrow> 'k \<Rightarrow> 'v option" where
  "lru_find m k = map_of (entries m) k"

text \<open>Modelled from the spec: whether a key has an entry (\<open>has\<close>).\<close>

definition lru_has :: "('k, 'v) LRUMap \<Rightarrow> 'k \<Rightarrow> bool" where
  "lru_has m k = (lru_find m k \<noteq> None)"

text \<open>Modelled from the spec: touching an entry makes it the most recently used one.\<close>

definition mark_used :: "'k \<Rightarrow> 'v \<Rightarrow> ('k \<times> 'v) list \<Rightarrow> ('k \<times> 'v) list" where
  "mark_used k v es = filter (\<lambda>e. fst e \<noteq> k) es @ [(k, v)]"

text \<open>Modelled from the spec: a lookup (\<open>get\<close>); a hit touches the entry, a miss changes nothing.\<close>

definition lru_get :: "('k, 'v) LRUMap \<Rightarrow> 'k \<Rightarrow> 'v option \<times> ('k, 'v) LRUMap" where
  "lru_get m k =
     (case lru_find m k of
        None \<Rightarrow> (None, m)
      | Some v \<Rightarrow> (Some v, m\<lparr>entries := mark_used k v (entries m)\<rparr>))"

text \<open>
  Modelled from the spec: an insertion (\<open>set\<close>). A key already present gets the new value and
  is touched; a new key is added as the newest entry, and beyond capacity the
  least-recently-touched entry goes.
\<close>

definition lru_set :: "('k, 'v) LRUMap \<Rightarrow> 'k \<Rightarrow> 'v \<Rightarrow> ('k, 'v) LRUMap" where
  "lru_set m k v =
     (case lru_find m k of
        Some old \<Rightarrow> m\<lparr>entries := mark_used k v (entries m)\<rparr>
      | None \<Rightarrow>
          (let es = entries m @ [(k, v)]
           in m\<lparr>entries := (if limit m < length es then tl es else es)\<rparr>))"

text \<open>Modelled from the spec: the keys, least recently touched first.\<close>

definition lru_keys :: "('k, 'v) LRUMap \<Rightarrow> 'k list" where
  "lru_keys m = map fst (entries m)"

text \<open>Modelled from the spec: no key twice, and no more entries than the capacity.\<close>

definition lru_wf :: "('k, 'v) LRUMap \<Rightarrow> bool" where
  "lru_wf m = (distinct (lru_keys m) \<and> length (entries m) \<le> limit m)"

section \<open>The Ethereum anchor validator\<close>

record EthNetwork =
  eth_network :: string
  eth_chain :: string
  eth_chainId :: nat
  eth_networkId :: nat
  eth_type :: string

definition ETH_CHAIN_ID_MAPPINGS :: "string \<rightharpoonup> EthNetwork" where
  "ETH_CHAIN_ID_MAPPINGS = map_of
     [(''eip155:1'', \<lparr>eth_network = ''mainnet'', eth_chain = ''ETH'', eth_chainId = 1,
                      eth_networkId = 1, eth_type = ''Production''\<rparr>),
      (''eip155:3'', \<lparr>eth_network = ''ropsten'', eth_chain = ''ETH'', eth_chainId = 3,
                      eth_networkId = 3, eth_type = ''Test''\<rparr>),
      (''eip155:4'', \<lparr>eth_network = ''rinkeby'', eth_chain = ''ETH'', eth_chainId = 4,
                      eth_networkId = 4, eth_type = ''Test''\<rparr>)]"

definition BASE_CHAIN_ID :: string where
  "BASE_CHAIN_ID = ''eip155''"

definition MAX_PROVIDERS_COUNT :: nat where
  "MAX_PROVIDERS_COUNT = 100"

definition TRANSACTION_CACHE_SIZE :: nat where
  "TRANSACTION_CACHE_SIZE = 50"

definition BLOCK_CACHE_SIZE :: nat where
  "BLOCK_CACHE_SIZE = 50"

text \<open>
  A provider is known by how it was built: \<open>new JsonRpcProvider(endpoint)\<close> or
  \<open>getDefaultProvider(network)\<close>.
\<close>

datatype provider = JsonRpcProvider string | DefaultProvider string

text \<open>
  Of a transaction and of a block, the fields that the validator reads. Block numbers and
  timestamps are Numbers that hold integers, on which \<open>!==\<close> is inequality.
\<close>

record TransactionResponse =
  tx_data :: string
  tx_blockNumber :: int
  tx_blockHash :: string

record Block =
  blk_timestamp :: int

text \<open>
  What the chain answers at the time of a call. A provider may answer with no record
  (\<open>Inr None\<close>, the \<open>null\<close> of the source) or reject the request (\<open>Inl\<close>).
\<close>

record rpc =
  getTransaction :: "provider \<Rightarrow> string \<Rightarrow> error + TransactionResponse option"
  getBlock :: "provider \<Rightarrow> string \<Rightarrow> error + Block option"
  getNetwork :: "provider \<Rightarrow> error + nat"

datatype request = GetNetwork provider | GetTransaction provider string | GetBlock provider string

record AnchorProof =
  chainId :: string
  txHash :: cid
  root :: cid
  blockNumber :: int
  blockTimestamp :: int

text \<open>
  The fields of the class; \<open>priv_\<close> stands for the leading underscore of a private name.
  An endpoint that was not given is the empty string, and a cache value is \<open>None\<close> where the
  source stored \<open>null\<close>.
  \<open>priv_logger\<close> collects the lines given to \<open>logger.err\<close> and \<open>requests\<close> the
  network requests made so far, in order.
\<close>

record EthereumAnchorValidator =
  ethereumRpcEndpoint :: string
  priv_chainId :: "string option"
  providersCache :: "(string, provider) LRUMap"
  priv_transactionCache :: "(string, TransactionResponse option) LRUMap"
  priv_blockCache :: "(string, Block option) LRUMap"
  priv_logger :: "string list"
  requests :: "request list"

definition new_EthereumAnchorValidator :: "string \<Rightarrow> EthereumAnchorValidator" where
  "new_EthereumAnchorValidator endpoint =
     \<lparr>ethereumRpcEndpoint = endpoint,
      priv_chainId = None,
      providersCache = new_LRUMap MAX_PROVIDERS_COUNT,
      priv_transactionCache = new_LRUMap TRANSACTION_CACHE_SIZE,
      priv_blockCache = new_LRUMap BLOCK_CACHE_SIZE,
      priv_logger = [],
      requests = []\<rparr>"

text \<open>
  The end of \<open>_getEthProvider\<close>, where a provider is built and cached: for the configured
  endpoint when there is one, else for the network that the static table gives.
\<close>

definition new_provider ::
  "EthereumAnchorValidator \<Rightarrow> string \<Rightarrow> (error + provider) \<times> EthereumAnchorValidator" where
  "new_provider v c =
     (if ethereumRpcEndpoint v \<noteq> []
      then
        (let p = JsonRpcProvider (ethereumRpcEndpoint v)
         in (Inr p, v\<lparr>providersCache := lru_set (providersCache v) c p\<rparr>))
      else
        (case ETH_CHAIN_ID_MAPPINGS c of
           None \<Rightarrow> (Inl (NoProviderAvailable c), v)
         | Some ethNetwork \<Rightarrow>
             (let p = DefaultProvider (eth_network ethNetwork)
              in (Inr p, v\<lparr>providersCache := lru_set (providersCache v) c p\<rparr>))))"

text \<open>
  \<open>_getEthProvider\<close>. The cache is asked first. The static table is a plain object, but it
  is only read for a name that starts with \<open>eip155\<close>, which no inherited property has.
\<close>

definition priv_getEthProvider ::
  "EthereumAnchorValidator \<Rightarrow> string \<Rightarrow> (error + provider) \<times> EthereumAnchorValidator" where
  "priv_getEthProvider v c =
     (case lru_get (providersCache v) c of
        (Some fromCache, cache) \<Rightarrow> (Inr fromCache, v\<lparr>providersCache := cache\<rparr>)
      | (None, cache) \<Rightarrow>
          if \<not> prefix ''eip155'' c then (Inl (UnsupportedNamespace c), v)
          else
            (case priv_chainId v of
               Some configured \<Rightarrow>
                 if configured \<noteq> [] \<and> configured \<noteq> c
                 then (Inl (UnsupportedChain c configured), v)
                 else new_provider v c
             | None \<Rightarrow> new_provider v c))"

text \<open>
  Lines 95 to 100 of the source: the transaction from the cache, or else from the provider,
  whose answer is stored under the hash before it is looked at.
\<close>

definition load_transaction ::
  "rpc \<Rightarrow> EthereumAnchorValidator \<Rightarrow> provider \<Rightarrow> string
     \<Rightarrow> (error + TransactionResponse option) \<times> EthereumAnchorValidator" where
  "load_transaction w v p h =
     (case lru_get (priv_transactionCache v) h of
        (Some (Some transaction), cache) \<Rightarrow>
          (Inr (Some transaction), v\<lparr>priv_transactionCache := cache\<rparr>)
      | (other, cache) \<Rightarrow>
          (let v1 = v\<lparr>priv_transactionCache := cache, requests := requests v @ [GetTransaction p h]\<rparr>
           in case getTransaction w p h of
                Inl e \<Rightarrow> (Inl e, v1)
              | Inr transaction \<Rightarrow>
                  (Inr transaction,
                   v1\<lparr>priv_transactionCache := lru_set (priv_transactionCache v1) h transaction\<rparr>)))"

text \<open>Lines 112 to 116: the same for the block, under the transaction's block hash.\<close>

definition load_block ::
  "rpc \<Rightarrow> EthereumAnchorValidator \<Rightarrow> provider \<Rightarrow> string
     \<Rightarrow> (error + Block option) \<times> EthereumAnchorValidator" where
  "load_block w v p h =
     (case lru_get (priv_blockCache v) h of
        (Some (Some block), cache) \<Rightarrow> (Inr (Some block), v\<lparr>priv_blockCache := cache\<rparr>)
      | (other, cache) \<Rightarrow>
          (let v1 = v\<lparr>priv_blockCache := cache, requests := requests v @ [GetBlock p h]\<rparr>
           in case getBlock w p h of
                Inl e \<Rightarrow> (Inl e, v1)
              | Inr block \<Rightarrow>
                  (Inr block, v1\<lparr>priv_blockCache := lru_set (priv_blockCache v1) h block\<rparr>)))"

text \<open>The body of the \<open>try\<close> in \<open>_getTransactionAndBlockInfo\<close>.\<close>

definition load_transaction_and_block ::
  "rpc \<Rightarrow> EthereumAnchorValidator \<Rightarrow> string \<Rightarrow> string
     \<Rightarrow> (error + TransactionResponse \<times> Block) \<times> EthereumAnchorValidator" where
  "load_transaction_and_block w v c h =
     (case priv_getEthProvider v c of
        (Inl e, v1) \<Rightarrow> (Inl e, v1)
      | (Inr p, v1) \<Rightarrow>
          (case load_transaction w v1 p h of
             (Inl e, v2) \<Rightarrow> (Inl e, v2)
           | (Inr None, v2) \<Rightarrow>
               (Inl (FailedToLoadTransaction h (ethereumRpcEndpoint v2 = [])), v2)
           | (Inr (Some transaction), v2) \<Rightarrow>
               (case load_block w v2 p (tx_blockHash transaction) of
                  (Inl e, v3) \<Rightarrow> (Inl e, v3)
                | (Inr None, v3) \<Rightarrow>
                    (Inl (FailedToLoadBlock (tx_blockNumber transaction) (tx_blockHash transaction)
                            (ethereumRpcEndpoint v3 = [])), v3)
                | (Inr (Some block), v3) \<Rightarrow> (Inr (transaction, block), v3))))"

text \<open>\<open>_getTransactionAndBlockInfo\<close>: whatever the body throws is logged and thrown again.\<close>

definition priv_getTransactionAndBlockInfo ::
  "rpc \<Rightarrow> EthereumAnchorValidator \<Rightarrow> string \<Rightarrow> string
     \<Rightarrow> (error + TransactionResponse \<times> Block) \<times> EthereumAnchorValidator" where
  "priv_getTransactionAndBlockInfo w v c h =
     (case load_transaction_and_block w v c h of
        (Inl e, v1) \<Rightarrow>
          (Inl e,
           v1\<lparr>priv_logger := priv_logger v1 @
                 [''Error loading transaction info for transaction '' @ h
                    @ '' from Ethereum: Error: '' @ message e]\<rparr>)
      | (Inr found, v1) \<Rightarrow> (Inr found, v1))"

definition tx_hash_text :: "AnchorProof \<Rightarrow> string" where
  "tx_hash_text proof = ''0x'' @ toString_base16 (digest (txHash proof))"

definition validateChainInclusion ::
  "rpc \<Rightarrow> EthereumAnchorValidator \<Rightarrow> AnchorProof \<Rightarrow> (error + unit) \<times> EthereumAnchorValidator" where
  "validateChainInclusion w v proof =
     (case priv_getTransactionAndBlockInfo w v (chainId proof) (tx_hash_text proof) of
        (Inl e, v1) \<Rightarrow> (Inl e, v1)
      | (Inr (transaction, block), v1) \<Rightarrow>
          (let txValueHexNumber = parseInt16 (tx_data transaction)
           in case cid_toString_base16 (root proof) of
                Inl e \<Rightarrow> (Inl e, v1)
              | Inr root16 \<Rightarrow>
                  (let rootValueHexNumber = parseInt16 (''0x'' @ root16)
                   in if strict_neq txValueHexNumber rootValueHexNumber
                      then (Inl (RootNotInTransaction (cid_toString (root proof))), v1)
                      else if blockNumber proof \<noteq> tx_blockNumber transaction
                      then (Inl (BlockNumbersDiffer (blockNumber proof) (tx_blockNumber transaction)), v1)
                      else if blockTimestamp proof \<noteq> blk_timestamp block
                      then (Inl (BlockTimestampsDiffer (blockTimestamp proof) (blk_timestamp block)), v1)
                      else (Inr (), v1))))"

text \<open>
  \<open>init\<close>. \<open>!chainId\<close> holds for \<open>null\<close> and for the empty string. The error of a
  mismatch prints \<open>this._chainId\<close>, which is not yet assigned at that point.
\<close>

definition init ::
  "rpc \<Rightarrow> EthereumAnchorValidator \<Rightarrow> string option \<Rightarrow> (error + unit) \<times> EthereumAnchorValidator" where
  "init w v arg =
     (case arg of
        None \<Rightarrow> (Inr (), v)
      | Some c \<Rightarrow>
          if c = [] then (Inr (), v)
          else
            (case priv_getEthProvider v c of
               (Inl e, v1) \<Rightarrow> (Inl e, v1)
             | (Inr p, v1) \<Rightarrow>
                 (let v2 = v1\<lparr>requests := requests v1 @ [GetNetwork p]\<rparr>
                  in case getNetwork w p of
                       Inl e \<Rightarrow> (Inl e, v2)
                     | Inr provider_chain_idnum \<Rightarrow>
                         (let provider_chain = BASE_CHAIN_ID @ '':'' @ decimal provider_chain_idnum
                          in if c \<noteq> provider_chain
                             then (Inl (ProviderChainMismatch provider_chain (priv_chainId v2)), v2)
                             else (Inr (), v2\<lparr>priv_chainId := Some c\<rparr>)))))"

text \<open>
  The states a validator can be in: built by the constructor, then any sequence of calls
  of its two public methods, whatever the chain answers to each.
\<close>

inductive reachable :: "EthereumAnchorValidator \<Rightarrow> bool" where
  constructed: "reachable (new_EthereumAnchorValidator endpoint)"
| after_init: "reachable v \<Longrightarrow> reachable (snd (init w v arg))"
| after_validate: "reachable v \<Longrightarrow> reachable (snd (validateChainInclusion w v proof))"

section \<open>Streams and conflict resolution\<close>

text \<open>
  Modelled from the spec: a commit of a stream's log. The stream state and the conflict
  resolver are not among the sources, which hold only a test of the daemon that updates a
  stream through a stale handle. A commit has an address, a link to the previous commit
  (none for the genesis commit), a payload, and the anchor proof it wraps when it is an anchor
  commit.
\<close>

record Commit =
  address :: string
  previous :: "string option"
  payload :: string
  anchor :: "AnchorProof option"

text \<open>Modelled from the spec: the anchor status of a stream.\<close>

datatype AnchorStatus = NOT_REQUESTED | PENDING | ANCHORED | FAILED

text \<open>
  Modelled from the spec: the state of a stream, with the ordered log of applied commits, the
  content and the anchor status.
\<close>

record StreamState =
  log :: "Commit list"
  content :: string
  anchorStatus :: AnchorStatus

text \<open>Modelled from the spec: what the resolver decides.\<close>

datatype decision = Accept | Reject string | Fork

text \<open>Modelled from the spec: the address of the most recent commit of the log.\<close>

definition tip :: "StreamState \<Rightarrow> string option" where
  "tip s = (if log s = [] then None else Some (address (last (log s))))"

text \<open>Modelled from the spec: the reason given with a rejection for a stale tip.\<close>

definition stale_tip :: string where
  "stale_tip = ''stale tip: conflict resolution rejected the commit''"

text \<open>
  Modelled from the spec: \<open>resolve\<close>. A candidate is accepted only if its previous-commit
  link is the address of the local tip, and is rejected for a stale tip otherwise; an anchor
  commit is accepted without that check once its proof has passed the validator. The spec
  does not say what an anchor commit with a failing proof gets; it is rejected here with
  the validator's error.
\<close>

definition resolve :: "(AnchorProof \<Rightarrow> error + unit) \<Rightarrow> string option \<Rightarrow> Commit \<Rightarrow> decision" where
  "resolve validate localTip candidate =
     (case anchor candidate of
        Some proof \<Rightarrow>
          (case validate proof of Inr ok \<Rightarrow> Accept | Inl e \<Rightarrow> Reject (message e))
      | None \<Rightarrow> if previous candidate = localTip then Accept else Reject stale_tip)"

text \<open>
  Modelled from the spec: applying a commit to a stream. An accepted commit is appended to
  the log and the derived fields follow in the same step; any other decision leaves the
  state as it was.
\<close>

definition apply_commit ::
  "(AnchorProof \<Rightarrow> error + unit) \<Rightarrow> StreamState \<Rightarrow> Commit \<Rightarrow> decision \<times> StreamState" where
  "apply_commit validate s candidate =
     (case resolve validate (tip s) candidate of
        Accept \<Rightarrow>
          (Accept,
           s\<lparr>log := log s @ [candidate],
             content := (if anchor candidate = None then payload candidate else content s),
             anchorStatus := (if anchor candidate = None then NOT_REQUESTED else ANCHORED)\<rparr>)
      | other \<Rightarrow> (other, s))"

section \<open>Sample data\<close>

text \<open>
  Answers of a chain, used where a statement is checked on a concrete run: two
  transactions of the same block, one transaction whose block the provider does not
  return, and nothing else.
\<close>

definition sample_rpc :: rpc where
  "sample_rpc =
     \<lparr>getTransaction = (\<lambda>p h.
        if h = ''0xab'' \<or> h = ''0xcd''
        then Inr (Some \<lparr>tx_data = ''0xf0155'', tx_blockNumber = 7, tx_blockHash = ''0xb1''\<rparr>)
        else if h = ''0xee''
        then Inr (Some \<lparr>tx_data = ''0xf0155'', tx_blockNumber = 8, tx_blockHash = ''0xb2''\<rparr>)
        else Inr None),
      getBlock = (\<lambda>p h. if h = ''0xb1'' then Inr (Some \<lparr>blk_timestamp = 1000\<rparr>) else Inr None),
      getNetwork = (\<lambda>p. Inr 1)\<rparr>"

text \<open>A proof that matches the transaction \<open>0xab\<close> of \<open>sample_rpc\<close>.\<close>

definition sample_proof :: AnchorProof where
  "sample_proof =
     \<lparr>chainId = ''eip155:1'',
      txHash = \<lparr>version = 1, bytes = [], digest = [0xab]\<rparr>,
      root = \<lparr>version = 1, bytes = [0x01, 0x55], digest = []\<rparr>,
      blockNumber = 7,
      blockTimestamp = 1000\<rparr>"

section \<open>Invariants of the validator\<close>

text \<open>
  Each cache has the capacity the constructor gave it, holds no key twice and never more
  entries than its capacity.
\<close>

definition caches_bounded :: "EthereumAnchorValidator \<Rightarrow> bool" where
  "caches_bounded v =
     (limit (providersCache v) = MAX_PROVIDERS_COUNT \<and> lru_wf (providersCache v)
      \<and> limit (priv_transactionCache v) = TRANSACTION_CACHE_SIZE \<and> lru_wf (priv_transactionCache v)
      \<and> limit (priv_blockCache v) = BLOCK_CACHE_SIZE \<and> lru_wf (priv_blockCache v))"

text \<open>
  A provider is only ever cached for an identifier that passed the \<open>startsWith\<close> check,
  and, when no endpoint is configured, that the static table knows.
\<close>

definition providers_known :: "EthereumAnchorValidator \<Rightarrow> bool" where
  "providers_known v =
     (\<forall>c \<in> set (lru_keys (providersCache v)).
        prefix ''eip155'' c \<and> (ethereumRpcEndpoint v = [] \<longrightarrow> ETH_CHAIN_ID_MAPPINGS c \<noteq> None))"

definition invariant :: "EthereumAnchorValidator \<Rightarrow> bool" where
  "invariant v = (caches_bounded v \<and> providers_known v \<and> priv_chainId v \<noteq> Some [])"

text \<open>
  The validator is configured for the chain \<open>c\<close> and has cached no provider for any
  other chain.
\<close>

definition only_configured :: "EthereumAnchorValidator \<Rightarrow> string \<Rightarrow> bool" where
  "only_configured v c =
     (priv_chainId v = Some c \<and> c \<noteq> [] \<and> set (lru_keys (providersCache v)) \<subseteq> {c})"

section \<open>Unfolding the model\<close>

lemmas parseInt_defs = parseInt16_def is_white_space_def strip_sign_def strip_0x_def hex_value_def
  math_int_def to_number_def round_to_double_def Let_def

lemmas validator_defs = validateChainInclusion_def priv_getTransactionAndBlockInfo_def
  load_transaction_and_block_def load_transaction_def load_block_def priv_getEthProvider_def
  new_provider_def init_def new_EthereumAnchorValidator_def ETH_CHAIN_ID_MAPPINGS_def
  MAX_PROVIDERS_COUNT_def TRANSACTION_CACHE_SIZE_def BLOCK_CACHE_SIZE_def BASE_CHAIN_ID_def
  new_LRUMap_def lru_get_def lru_set_def lru_find_def mark_used_def
  tx_hash_text_def toString_base16_def hex_char_def cid_toString_base16_def Let_def

text \<open>The base32 text form on three test vectors of RFC 4648.\<close>

lemma base32_check:
  "toString_base32 [0x66, 0x6f, 0x6f] = ''mzxw6''"
  "toString_base32 [0x66] = ''my''"
  "toString_base32 [0x66, 0x6f, 0x6f, 0x62, 0x61] = ''mzxw6ytb''"
  by (simp_all add: toString_base32_def byte_bits_def bits_value_def base32_char_def)

section \<open>Properties of the bounded cache\<close>

lemma lru_find_None_iff: "lru_find m k = None \<longleftrightarrow> k \<notin> set (lru_keys m)"
  by (simp add: lru_find_def lru_keys_def map_of_eq_None_iff)

lemma keys_mark_used: "map fst (mark_used k x es) = filter (\<lambda>j. j \<noteq> k) (map fst es) @ [k]"
  by (simp add: mark_used_def filter_map comp_def)

lemma lru_get_limit: "limit (snd (lru_get m k)) = limit m"
  by (simp add: lru_get_def split: option.splits)

lemma lru_set_limit: "limit (lru_set m k x) = limit m"
  by (simp add: lru_set_def Let_def split: option.splits)

lemma lru_get_keys:
  "lru_keys (snd (lru_get m k))
     = (if k \<in> set (lru_keys m) then filter (\<lambda>j. j \<noteq> k) (lru_keys m) @ [k] else lru_keys m)"
proof (cases "lru_find m k")
  case None
  moreover from None have "k \<notin> set (lru_keys m)" by (simp add: lru_find_None_iff)
  ultimately show ?thesis by (simp add: lru_get_def)
next
  case (Some x)
  moreover from Some have "k \<in> set (lru_keys m)" using lru_find_None_iff [of m k] by simp
  ultimately show ?thesis by (simp add: lru_get_def lru_keys_def keys_mark_used)
qed

lemma lru_set_keys:
  "lru_keys (lru_set m k x)
     = (if k \<in> set (lru_keys m) then filter (\<lambda>j. j \<noteq> k) (lru_keys m) @ [k]
        else if limit m < Suc (length (lru_keys m)) then tl (lru_keys m @ [k])
        else lru_keys m @ [k])"
proof (cases "lru_find m k")
  case None
  moreover from None have "k \<notin> set (lru_keys m)" by (simp add: lru_find_None_iff)
  ultimately show ?thesis by (simp add: lru_set_def lru_keys_def Let_def map_tl)
next
  case (Some old)
  moreover from Some have "k \<in> set (lru_keys m)" using lru_find_None_iff [of m k] by simp
  ultimately show ?thesis by (simp add: lru_set_def lru_keys_def keys_mark_used)
qed

lemma lru_get_key_set: "set (lru_keys (snd (lru_get m k))) = set (lru_keys m)"
  by (auto simp: lru_get_keys)

lemma set_tl_subset: "set (tl xs) \<subseteq> set xs"
  by (cases xs) auto

lemma lru_set_key_subset: "set (lru_keys (lru_set m k x)) \<subseteq> insert k (set (lru_keys m))"
  using set_tl_subset [of "lru_keys m @ [k]"] by (auto simp: lru_set_keys)

lemma filter_neq_absent: "k \<notin> set xs \<Longrightarrow> filter (\<lambda>j. j \<noteq> k) xs = xs"
  by (induction xs) auto

lemma length_filter_neq_distinct:
  "distinct xs \<Longrightarrow> k \<in> set xs \<Longrightarrow> Suc (length (filter (\<lambda>j. j \<noteq> k) xs)) = length xs"
  by (induction xs) (auto simp: filter_neq_absent)

lemma length_lru_keys: "length (lru_keys m) = length (entries m)"
  by (simp add: lru_keys_def)

lemma lru_get_wf:
  assumes "lru_wf m"
  shows "lru_wf (snd (lru_get m k))"
proof -
  from assms have d: "distinct (lru_keys m)" and l: "length (lru_keys m) \<le> limit m"
    by (simp_all add: lru_wf_def length_lru_keys)
  have "distinct (lru_keys (snd (lru_get m k)))" using d by (simp add: lru_get_keys)
  moreover have "length (lru_keys (snd (lru_get m k))) \<le> limit m"
    using l length_filter_neq_distinct [OF d, of k] by (simp add: lru_get_keys)
  ultimately show ?thesis by (simp add: lru_wf_def length_lru_keys lru_get_limit)
qed

lemma lru_set_wf:
  assumes "lru_wf m"
  shows "lru_wf (lru_set m k x)"
proof -
  from assms have d: "distinct (lru_keys m)" and l: "length (lru_keys m) \<le> limit m"
    by (simp_all add: lru_wf_def length_lru_keys)
  have "distinct (lru_keys (lru_set m k x))"
    using d by (simp add: lru_set_keys distinct_tl)
  moreover have "length (lru_keys (lru_set m k x)) \<le> limit m"
    using l length_filter_neq_distinct [OF d, of k] by (simp add: lru_set_keys)
  ultimately show ?thesis by (simp add: lru_wf_def length_lru_keys lru_set_limit)
qed

lemma new_LRUMap_wf: "lru_wf (new_LRUMap n)" "limit (new_LRUMap n) = n" "lru_keys (new_LRUMap n) = []"
  by (simp_all add: lru_wf_def new_LRUMap_def lru_keys_def)

section \<open>The invariants hold in every reachable state\<close>

lemma lru_get_eq: "lru_get m k = (r, m') \<Longrightarrow> r = lru_find m k \<and> m' = snd (lru_get m k)"
  by (auto simp: lru_get_def split: option.splits)

lemma new_provider_endpoint: "ethereumRpcEndpoint (snd (new_provider v c)) = ethereumRpcEndpoint v"
  by (simp add: new_provider_def Let_def split: option.splits)

lemma new_provider_chainId: "priv_chainId (snd (new_provider v c)) = priv_chainId v"
  by (simp add: new_provider_def Let_def split: option.splits)

lemma new_provider_bounded: "caches_bounded v \<Longrightarrow> caches_bounded (snd (new_provider v c))"
  by (simp add: new_provider_def caches_bounded_def lru_set_wf lru_set_limit Let_def split: option.splits)

lemma providers_known_set:
  assumes "providers_known v" and "prefix ''eip155'' c"
    and "ethereumRpcEndpoint v = [] \<longrightarrow> ETH_CHAIN_ID_MAPPINGS c \<noteq> None"
  shows "providers_known (v\<lparr>providersCache := lru_set (providersCache v) c p\<rparr>)"
  using assms lru_set_key_subset [of "providersCache v" c p]
  by (auto simp: providers_known_def)

lemma new_provider_known:
  "providers_known v \<Longrightarrow> prefix ''eip155'' c \<Longrightarrow> providers_known (snd (new_provider v c))"
  by (auto simp: new_provider_def Let_def intro!: providers_known_set split: option.splits)

lemma getEthProvider_endpoint:
  "ethereumRpcEndpoint (snd (priv_getEthProvider v c)) = ethereumRpcEndpoint v"
  by (simp add: priv_getEthProvider_def new_provider_endpoint split: prod.splits option.splits)

lemma getEthProvider_chainId: "priv_chainId (snd (priv_getEthProvider v c)) = priv_chainId v"
  by (simp add: priv_getEthProvider_def new_provider_chainId split: prod.splits option.splits)

lemma getEthProvider_bounded:
  "caches_bounded v \<Longrightarrow> caches_bounded (snd (priv_getEthProvider v c))"
  by (auto simp: priv_getEthProvider_def new_provider_bounded dest!: lru_get_eq
      split: prod.splits option.splits)
    (simp_all add: caches_bounded_def lru_get_wf lru_get_limit)

lemma getEthProvider_known:
  "providers_known v \<Longrightarrow> providers_known (snd (priv_getEthProvider v c))"
  by (auto simp: priv_getEthProvider_def new_provider_known dest!: lru_get_eq
      split: prod.splits option.splits)
    (simp_all add: providers_known_def lru_get_key_set)


lemma getEthProvider_inv:
  assumes "priv_getEthProvider v c = (r, v1)" and "invariant v"
  shows "invariant v1"
proof -
  have "v1 = snd (priv_getEthProvider v c)" using assms(1) by simp
  with assms(2) show ?thesis
    by (simp add: invariant_def getEthProvider_bounded getEthProvider_known getEthProvider_chainId)
qed

lemma providers_known_cong:
  "providersCache v1 = providersCache v \<Longrightarrow> ethereumRpcEndpoint v1 = ethereumRpcEndpoint v
     \<Longrightarrow> providers_known v1 = providers_known v"
  by (simp add: providers_known_def)

lemma load_transaction_frame:
  assumes "load_transaction w v p h = (r, v1)"
  shows "ethereumRpcEndpoint v1 = ethereumRpcEndpoint v \<and> priv_chainId v1 = priv_chainId v
     \<and> providersCache v1 = providersCache v \<and> priv_blockCache v1 = priv_blockCache v"
  using assms by (auto simp: load_transaction_def Let_def split: prod.splits option.splits sum.splits)

lemma load_transaction_cache:
  assumes "load_transaction w v p h = (r, v1)" and "lru_wf (priv_transactionCache v)"
  shows "lru_wf (priv_transactionCache v1)
     \<and> limit (priv_transactionCache v1) = limit (priv_transactionCache v)"
  using assms
  by (auto simp: load_transaction_def Let_def lru_set_wf lru_get_wf lru_set_limit lru_get_limit
      dest!: lru_get_eq split: prod.splits option.splits sum.splits)

lemma load_transaction_inv:
  assumes "load_transaction w v p h = (r, v1)" and "invariant v"
  shows "invariant v1"
  using assms(2) load_transaction_frame [OF assms(1)] load_transaction_cache [OF assms(1)]
    providers_known_cong [of v1 v]
  by (simp add: invariant_def caches_bounded_def)

lemma load_block_frame:
  assumes "load_block w v p h = (r, v1)"
  shows "ethereumRpcEndpoint v1 = ethereumRpcEndpoint v \<and> priv_chainId v1 = priv_chainId v
     \<and> providersCache v1 = providersCache v \<and> priv_transactionCache v1 = priv_transactionCache v"
  using assms by (auto simp: load_block_def Let_def split: prod.splits option.splits sum.splits)

lemma load_block_cache:
  assumes "load_block w v p h = (r, v1)" and "lru_wf (priv_blockCache v)"
  shows "lru_wf (priv_blockCache v1) \<and> limit (priv_blockCache v1) = limit (priv_blockCache v)"
  using assms
  by (auto simp: load_block_def Let_def lru_set_wf lru_get_wf lru_set_limit lru_get_limit
      dest!: lru_get_eq split: prod.splits option.splits sum.splits)

lemma load_block_inv:
  assumes "load_block w v p h = (r, v1)" and "invariant v"
  shows "invariant v1"
  using assms(2) load_block_frame [OF assms(1)] load_block_cache [OF assms(1)]
    providers_known_cong [of v1 v]
  by (simp add: invariant_def caches_bounded_def)

lemma load_transaction_and_block_inv:
  assumes "load_transaction_and_block w v c h = (r, v1)" and "invariant v"
  shows "invariant v1"
  using assms
  by (auto simp: load_transaction_and_block_def
      split: prod.splits option.splits sum.splits
      dest: getEthProvider_inv load_transaction_inv load_block_inv)

lemma invariant_logger: "invariant (v\<lparr>priv_logger := l\<rparr>) = invariant v"
  by (simp add: invariant_def caches_bounded_def providers_known_def)

lemma invariant_requests: "invariant (v\<lparr>requests := l\<rparr>) = invariant v"
  by (simp add: invariant_def caches_bounded_def providers_known_def)

lemma getTransactionAndBlockInfo_inv:
  assumes "priv_getTransactionAndBlockInfo w v c h = (r, v1)" and "invariant v"
  shows "invariant v1"
  using assms
  by (auto simp: priv_getTransactionAndBlockInfo_def invariant_logger
      split: prod.splits sum.splits dest: load_transaction_and_block_inv)

lemma validateChainInclusion_state:
  "snd (validateChainInclusion w v proof)
     = snd (priv_getTransactionAndBlockInfo w v (chainId proof) (tx_hash_text proof))"
  by (simp add: validateChainInclusion_def Let_def split: prod.splits sum.splits)

lemma validateChainInclusion_inv: "invariant v \<Longrightarrow> invariant (snd (validateChainInclusion w v proof))"
  using getTransactionAndBlockInfo_inv [OF surjective_pairing]
  by (simp add: validateChainInclusion_state)

lemma init_state_cases:
  assumes "priv_getEthProvider v c = (r, v1)"
  shows "snd (init w v (Some c)) = v \<or> snd (init w v (Some c)) = v1
     \<or> (\<exists>l. snd (init w v (Some c)) = v1\<lparr>requests := l\<rparr>)
     \<or> (c \<noteq> [] \<and> (\<exists>l. snd (init w v (Some c)) = v1\<lparr>requests := l, priv_chainId := Some c\<rparr>))"
  using assms by (auto simp: init_def Let_def split: sum.splits)

lemma invariant_configured:
  "invariant v \<Longrightarrow> c \<noteq> [] \<Longrightarrow> invariant (v\<lparr>requests := l, priv_chainId := Some c\<rparr>)"
  by (simp add: invariant_def caches_bounded_def providers_known_def)

lemma init_inv:
  assumes inv: "invariant v"
  shows "invariant (snd (init w v arg))"
proof (cases arg)
  case None
  with inv show ?thesis by (simp add: init_def)
next
  case (Some c)
  obtain r v1 where g: "priv_getEthProvider v c = (r, v1)" by (cases "priv_getEthProvider v c")
  from getEthProvider_inv [OF g inv] have inv1: "invariant v1" .
  from init_state_cases [OF g, of w] show ?thesis
    unfolding Some using inv inv1 invariant_requests invariant_configured by metis
qed

lemma new_validator_inv: "invariant (new_EthereumAnchorValidator endpoint)"
  by (simp add: invariant_def caches_bounded_def providers_known_def new_EthereumAnchorValidator_def
      new_LRUMap_wf)

lemma reachable_invariant: "reachable v \<Longrightarrow> invariant v"
  by (induction rule: reachable.induct)
    (simp_all add: new_validator_inv init_inv validateChainInclusion_inv)

section \<open>Cache bounds and eviction\<close>

lemma reachable_bounds:
  assumes "reachable v"
  shows "limit (providersCache v) = 100 \<and> length (entries (providersCache v)) \<le> 100
     \<and> limit (priv_transactionCache v) = 50 \<and> length (entries (priv_transactionCache v)) \<le> 50
     \<and> limit (priv_blockCache v) = 50 \<and> length (entries (priv_blockCache v)) \<le> 50"
  using reachable_invariant [OF assms]
  by (simp add: invariant_def caches_bounded_def lru_wf_def MAX_PROVIDERS_COUNT_def
      TRANSACTION_CACHE_SIZE_def BLOCK_CACHE_SIZE_def)

lemma lru_set_full:
  assumes wf: "lru_wf m" and full: "length (entries m) = limit m" and pos: "0 < limit m"
    and new: "\<not> lru_has m k"
  shows "entries (lru_set m k x) = tl (entries m) @ [(k, x)]"
proof -
  from new have "lru_find m k = None" by (simp add: lru_has_def)
  moreover from full pos have "entries m \<noteq> []" by auto
  ultimately show ?thesis using full by (simp add: lru_set_def Let_def)
qed

lemma lru_eviction:
  assumes wf: "lru_wf m" and full: "length (entries m) = limit m" and pos: "0 < limit m"
    and new: "\<not> lru_has m k"
  shows "lru_keys (lru_set m k x) = tl (lru_keys m) @ [k]
     \<and> \<not> lru_has (lru_set m k x) (hd (lru_keys m))
     \<and> (\<forall>e \<in> set (tl (entries m)). lru_find (lru_set m k x) (fst e) = Some (snd e))
     \<and> lru_find (lru_set m k x) k = Some x
     \<and> length (entries (lru_set m k x)) = limit m"
proof -
  note e = lru_set_full [OF assms, of x]
  from full pos obtain e0 rest where es: "entries m = e0 # rest" by (cases "entries m") auto
  from wf es have d: "distinct (map fst rest)" and e0: "fst e0 \<notin> fst ` set rest"
    by (simp_all add: lru_wf_def lru_keys_def)
  from new es have k: "k \<noteq> fst e0" "k \<notin> fst ` set rest"
    using lru_find_None_iff [of m k] by (auto simp: lru_has_def lru_keys_def)
  have d': "distinct (map fst (rest @ [(k, x)]))" using d k by auto
  have 1: "lru_keys (lru_set m k x) = tl (lru_keys m) @ [k]"
    using e es by (simp add: lru_keys_def)
  have 2: "\<not> lru_has (lru_set m k x) (hd (lru_keys m))"
    using e es e0 k lru_find_None_iff [of "lru_set m k x" "fst e0"]
    by (auto simp: lru_has_def lru_keys_def)
  have 3: "\<forall>e \<in> set (tl (entries m)). lru_find (lru_set m k x) (fst e) = Some (snd e)"
    using e es map_of_eq_Some_iff [OF d'] by (auto simp: lru_find_def)
  have 4: "lru_find (lru_set m k x) k = Some x"
    using e es map_of_eq_Some_iff [OF d'] by (auto simp: lru_find_def)
  have 5: "length (entries (lru_set m k x)) = limit m"
    using e es full by simp
  from 1 2 3 4 5 show ?thesis by blast
qed

text \<open>
  Claim C8. In every reachable state the three caches have the capacities 100, 50 and 50
  and never hold more entries than that. A cache that is full and receives a new key
  loses exactly its least-recently-touched entry, the first of its list: that key is no
  longer found, every other entry and the new one are found with their values, and the
  cache is full again.
\<close>

theorem cache_bound_and_eviction:
  "(reachable v \<longrightarrow>
      limit (providersCache v) = 100 \<and> length (entries (providersCache v)) \<le> 100
      \<and> limit (priv_transactionCache v) = 50 \<and> length (entries (priv_transactionCache v)) \<le> 50
      \<and> limit (priv_blockCache v) = 50 \<and> length (entries (priv_blockCache v)) \<le> 50)
   \<and> (lru_wf m \<and> length (entries m) = limit m \<and> 0 < limit m \<and> \<not> lru_has m k \<longrightarrow>
      lru_keys (lru_set m k x) = tl (lru_keys m) @ [k]
      \<and> \<not> lru_has (lru_set m k x) (hd (lru_keys m))
      \<and> (\<forall>e \<in> set (tl (entries m)). lru_find (lru_set m k x) (fst e) = Some (snd e))
      \<and> lru_find (lru_set m k x) k = Some x
      \<and> length (entries (lru_set m k x)) = limit m)"
  using reachable_bounds [of v] lru_eviction [of m k x] by blast

theorem cache_bound_and_eviction_witness:
  "reachable (new_EthereumAnchorValidator [])
   \<and> limit (priv_transactionCache (new_EthereumAnchorValidator [])) = 50
   \<and> lru_wf \<lparr>limit = 2, entries = [(''a'', 1::nat), (''b'', 2)]\<rparr>
   \<and> \<not> lru_has \<lparr>limit = 2, entries = [(''a'', 1::nat), (''b'', 2)]\<rparr> ''c''
   \<and> lru_keys (lru_set \<lparr>limit = 2, entries = [(''a'', 1::nat), (''b'', 2)]\<rparr> ''c'' 3) = [''b'', ''c'']
   \<and> \<not> lru_has (lru_set \<lparr>limit = 2, entries = [(''a'', 1::nat), (''b'', 2)]\<rparr> ''c'' 3) ''a''
   \<and> lru_find (lru_set \<lparr>limit = 2, entries = [(''a'', 1::nat), (''b'', 2)]\<rparr> ''c'' 3) ''b'' = Some 2
   \<and> lru_find (lru_set \<lparr>limit = 2, entries = [(''a'', 1::nat), (''b'', 2)]\<rparr> ''c'' 3) ''c'' = Some 3"
proof -
  have r: "reachable (new_EthereumAnchorValidator [])" by (rule reachable.constructed)
  have h: "lru_wf \<lparr>limit = 2, entries = [(''a'', 1::nat), (''b'', 2)]\<rparr>
      \<and> length (entries \<lparr>limit = 2, entries = [(''a'', 1::nat), (''b'', 2)]\<rparr>)
          = limit \<lparr>limit = 2, entries = [(''a'', 1::nat), (''b'', 2)]\<rparr>
      \<and> 0 < limit \<lparr>limit = 2, entries = [(''a'', 1::nat), (''b'', 2)]\<rparr>
      \<and> \<not> lru_has \<lparr>limit = 2, entries = [(''a'', 1::nat), (''b'', 2)]\<rparr> ''c''"
    by (simp add: lru_wf_def lru_keys_def lru_has_def lru_find_def)
  from cache_bound_and_eviction
    [of "new_EthereumAnchorValidator []" "\<lparr>limit = 2, entries = [(''a'', 1::nat), (''b'', 2)]\<rparr>" "''c''" 3]
    r h show ?thesis
    by (simp add: lru_keys_def)
qed

section \<open>Provider lookup\<close>

text \<open>
  Claim C10. The providers cache is asked before anything is checked: for every chain
  identifier that has a provider in the cache, \<open>_getEthProvider\<close> returns that provider and
  does not throw, whatever the identifier's namespace and whatever chain id the validator
  is configured for. The lookup touches the entry and changes nothing else.
\<close>

theorem cached_provider_returned:
  assumes "lru_find (providersCache v) c = Some p"
  shows "fst (priv_getEthProvider v c) = Inr p
     \<and> snd (priv_getEthProvider v c)
         = v\<lparr>providersCache :=
               (providersCache v)\<lparr>entries := mark_used c p (entries (providersCache v))\<rparr>\<rparr>"
  using assms by (simp add: priv_getEthProvider_def lru_get_def)

theorem cached_provider_returned_witness:
  "lru_find (providersCache
       \<lparr>ethereumRpcEndpoint = [], priv_chainId = Some ''eip155:1'',
        providersCache = \<lparr>limit = 100, entries = [(''eip155:3'', DefaultProvider ''ropsten'')]\<rparr>,
        priv_transactionCache = \<lparr>limit = 50, entries = []\<rparr>,
        priv_blockCache = \<lparr>limit = 50, entries = []\<rparr>,
        priv_logger = [], requests = []\<rparr>) ''eip155:3'' = Some (DefaultProvider ''ropsten'')
   \<and> fst (priv_getEthProvider
       \<lparr>ethereumRpcEndpoint = [], priv_chainId = Some ''eip155:1'',
        providersCache = \<lparr>limit = 100, entries = [(''eip155:3'', DefaultProvider ''ropsten'')]\<rparr>,
        priv_transactionCache = \<lparr>limit = 50, entries = []\<rparr>,
        priv_blockCache = \<lparr>limit = 50, entries = []\<rparr>,
        priv_logger = [], requests = []\<rparr> ''eip155:3'') = Inr (DefaultProvider ''ropsten'')"
  using cached_provider_returned
    [of "\<lparr>ethereumRpcEndpoint = [], priv_chainId = Some ''eip155:1'',
        providersCache = \<lparr>limit = 100, entries = [(''eip155:3'', DefaultProvider ''ropsten'')]\<rparr>,
        priv_transactionCache = \<lparr>limit = 50, entries = []\<rparr>,
        priv_blockCache = \<lparr>limit = 50, entries = []\<rparr>,
        priv_logger = [], requests = []\<rparr>" "''eip155:3''" "DefaultProvider ''ropsten''"]
  by (simp add: lru_find_def)

section \<open>Chain identifiers without a provider\<close>

lemma getEthProvider_failure_state: "priv_getEthProvider v c = (Inl e, v1) \<Longrightarrow> v1 = v"
  by (auto simp: priv_getEthProvider_def new_provider_def Let_def
      split: prod.splits option.splits if_splits)

lemma validate_provider_failure:
  assumes "fst (priv_getEthProvider v (chainId proof)) = Inl e"
  shows "validateChainInclusion w v proof =
     (Inl e, v\<lparr>priv_logger := priv_logger v @
        [''Error loading transaction info for transaction '' @ tx_hash_text proof
           @ '' from Ethereum: Error: '' @ message e]\<rparr>)"
proof -
  obtain r v1 where g: "priv_getEthProvider v (chainId proof) = (r, v1)"
    by (cases "priv_getEthProvider v (chainId proof)")
  with assms have r: "r = Inl e" by simp
  with g have "v1 = v" using getEthProvider_failure_state by blast
  with g r show ?thesis
    by (simp add: validateChainInclusion_def priv_getTransactionAndBlockInfo_def
        load_transaction_and_block_def)
qed

lemma uncached_namespace_rejected:
  assumes "c \<notin> set (lru_keys (providersCache v))" and "\<not> prefix ''eip155'' c"
  shows "fst (priv_getEthProvider v c) = Inl (UnsupportedNamespace c)"
  using assms lru_find_None_iff [of "providersCache v" c]
  by (simp add: priv_getEthProvider_def lru_get_def)

lemma uncached_unknown_rejected:
  assumes "c \<notin> set (lru_keys (providersCache v))" and "prefix ''eip155'' c"
    and "ETH_CHAIN_ID_MAPPINGS c = None" and "ethereumRpcEndpoint v = []"
  shows "(\<exists>configured. fst (priv_getEthProvider v c) = Inl (UnsupportedChain c configured)
            \<and> priv_chainId v = Some configured)
       \<or> fst (priv_getEthProvider v c) = Inl (NoProviderAvailable c)"
  using assms lru_find_None_iff [of "providersCache v" c]
  by (auto simp: priv_getEthProvider_def lru_get_def new_provider_def split: option.splits)

lemma prefix_colon: "prefix ''eip155:'' c \<Longrightarrow> prefix ''eip155'' c"
  by (auto simp: prefix_def)

text \<open>
  Claim C3, as the code has it. In every reachable state, a chain identifier that does not
  start with \<open>eip155\<close> fails provider resolution, and with it \<open>validateChainInclusion\<close>,
  with the unsupported-namespace error. When no RPC endpoint is configured, an identifier
  of the form \<open>eip155:reference\<close> that the static table does not hold fails as well, and
  with the error "No ethereum provider available for chainId" when no fixed chain id is
  configured.
\<close>

theorem unsupported_chain_rejected:
  assumes "reachable v"
  shows "(\<not> prefix ''eip155'' c \<longrightarrow>
            fst (priv_getEthProvider v c) = Inl (UnsupportedNamespace c)
            \<and> fst (validateChainInclusion w v (proof\<lparr>chainId := c\<rparr>)) = Inl (UnsupportedNamespace c))
       \<and> (prefix ''eip155:'' c \<and> ETH_CHAIN_ID_MAPPINGS c = None \<and> ethereumRpcEndpoint v = [] \<longrightarrow>
            (\<exists>e. fst (priv_getEthProvider v c) = Inl e
               \<and> fst (validateChainInclusion w v (proof\<lparr>chainId := c\<rparr>)) = Inl e
               \<and> (priv_chainId v = None \<longrightarrow>
                    e = NoProviderAvailable c
                    \<and> message e = ''No ethereum provider available for chainId '' @ c)))"
proof -
  from reachable_invariant [OF assms] have known: "providers_known v" by (simp add: invariant_def)
  have val: "fst (priv_getEthProvider v c) = Inl e
      \<Longrightarrow> fst (validateChainInclusion w v (proof\<lparr>chainId := c\<rparr>)) = Inl e" for e
    using validate_provider_failure [of v "proof\<lparr>chainId := c\<rparr>" e w] by simp
  have 1: "fst (priv_getEthProvider v c) = Inl (UnsupportedNamespace c)" if "\<not> prefix ''eip155'' c"
  proof -
    from that known have "c \<notin> set (lru_keys (providersCache v))"
      by (auto simp: providers_known_def)
    then show ?thesis using that by (rule uncached_namespace_rejected)
  qed
  have 2: "\<exists>e. fst (priv_getEthProvider v c) = Inl e
               \<and> fst (validateChainInclusion w v (proof\<lparr>chainId := c\<rparr>)) = Inl e
               \<and> (priv_chainId v = None \<longrightarrow>
                    e = NoProviderAvailable c
                    \<and> message e = ''No ethereum provider available for chainId '' @ c)"
    if p: "prefix ''eip155:'' c" and t: "ETH_CHAIN_ID_MAPPINGS c = None"
      and ep: "ethereumRpcEndpoint v = []"
  proof -
    from t ep known have "c \<notin> set (lru_keys (providersCache v))"
      by (auto simp: providers_known_def)
    from uncached_unknown_rejected [OF this prefix_colon [OF p] t ep] val
    show ?thesis by auto
  qed
  from 1 2 val show ?thesis by blast
qed

theorem unsupported_chain_rejected_witness:
  "reachable (new_EthereumAnchorValidator [])
   \<and> \<not> prefix ''eip155'' ''cosmos:hub''
   \<and> fst (validateChainInclusion sample_rpc (new_EthereumAnchorValidator [])
            (sample_proof\<lparr>chainId := ''cosmos:hub''\<rparr>)) = Inl (UnsupportedNamespace ''cosmos:hub'')
   \<and> prefix ''eip155:'' ''eip155:1337'' \<and> ETH_CHAIN_ID_MAPPINGS ''eip155:1337'' = None
   \<and> fst (validateChainInclusion sample_rpc (new_EthereumAnchorValidator [])
            (sample_proof\<lparr>chainId := ''eip155:1337''\<rparr>)) = Inl (NoProviderAvailable ''eip155:1337'')"
proof -
  have r: "reachable (new_EthereumAnchorValidator [])" by (rule reachable.constructed)
  have h: "\<not> prefix ''eip155'' ''cosmos:hub''" "prefix ''eip155:'' ''eip155:1337''"
    "ETH_CHAIN_ID_MAPPINGS ''eip155:1337'' = None"
    "ethereumRpcEndpoint (new_EthereumAnchorValidator []) = []"
    "priv_chainId (new_EthereumAnchorValidator []) = None"
    by (simp_all add: ETH_CHAIN_ID_MAPPINGS_def new_EthereumAnchorValidator_def)
  from unsupported_chain_rejected [OF r, of "''cosmos:hub''" sample_rpc sample_proof] h
  have a: "fst (validateChainInclusion sample_rpc (new_EthereumAnchorValidator [])
            (sample_proof\<lparr>chainId := ''cosmos:hub''\<rparr>)) = Inl (UnsupportedNamespace ''cosmos:hub'')"
    by blast
  from unsupported_chain_rejected [OF r, of "''eip155:1337''" sample_rpc sample_proof] h
  have b: "fst (validateChainInclusion sample_rpc (new_EthereumAnchorValidator [])
            (sample_proof\<lparr>chainId := ''eip155:1337''\<rparr>)) = Inl (NoProviderAvailable ''eip155:1337'')"
    by auto
  from r h a b show ?thesis by simp
qed

text \<open>
  With an RPC endpoint configured the static table is not consulted: an \<open>eip155\<close>
  identifier that it does not hold gets a provider for the endpoint.
\<close>

theorem endpoint_serves_unknown_chain:
  "fst (priv_getEthProvider (new_EthereumAnchorValidator ''http://localhost:8545'') ''eip155:1337'')
     = Inr (JsonRpcProvider ''http://localhost:8545'')
   \<and> ETH_CHAIN_ID_MAPPINGS ''eip155:1337'' = None"
  by (simp add: validator_defs)

text \<open>
  The check is \<open>startsWith('eip155')\<close>, so a namespace that merely begins with these
  letters passes it.
\<close>

lemma startsWith_admits_longer_namespace:
  "fst (priv_getEthProvider (new_EthereumAnchorValidator ''http://localhost:8545'') ''eip1559:1'')
     = Inr (JsonRpcProvider ''http://localhost:8545'')"
  by (simp add: validator_defs)

section \<open>A validator configured for one chain\<close>




text \<open>
  When \<open>init\<close> is the first call on a validator and succeeds, the cache holds no
  provider for another chain, then and after any number of validations: the condition of
  the theorem above is met by every proof for another chain.
\<close>

lemma getEthProvider_only_configured:
  assumes "only_configured v c"
  shows "only_configured (snd (priv_getEthProvider v c')) c"
proof -
  from assms have conf: "priv_chainId v = Some c" and ne: "c \<noteq> []"
    and keys: "set (lru_keys (providersCache v)) \<subseteq> {c}"
    by (simp_all add: only_configured_def)
  have keys': "set (lru_keys (providersCache (snd (priv_getEthProvider v c')))) \<subseteq> {c}"
  proof (cases "lru_find (providersCache v) c'")
    case (Some p)
    then show ?thesis using keys lru_get_key_set [of "providersCache v" c']
      by (simp add: priv_getEthProvider_def lru_get_def)
  next
    case None
    show ?thesis
    proof (cases "c' = c")
      case True
      with None conf keys lru_set_key_subset [of "providersCache v" c] show ?thesis
        by (auto simp: priv_getEthProvider_def lru_get_def new_provider_def Let_def
            split: option.splits)
    next
      case False
      with None conf ne keys show ?thesis
        by (simp add: priv_getEthProvider_def lru_get_def)
    qed
  qed
  with conf ne show ?thesis by (simp add: only_configured_def getEthProvider_chainId)
qed

lemma validate_only_configured:
  assumes "only_configured v c"
  shows "only_configured (snd (validateChainInclusion w v proof)) c"
proof -
  have frame: "only_configured v2 c"
    if "only_configured v1 c" and "priv_chainId v2 = priv_chainId v1"
      and "providersCache v2 = providersCache v1" for v1 v2
    using that by (simp add: only_configured_def)
  obtain r v1 where g: "priv_getEthProvider v (chainId proof) = (r, v1)"
    by (cases "priv_getEthProvider v (chainId proof)")
  have v1: "only_configured v1 c"
    using getEthProvider_only_configured [OF assms, of "chainId proof"] g by simp
  have "only_configured (snd (load_transaction_and_block w v (chainId proof) h)) c" for h
    using g v1
    by (auto simp: load_transaction_and_block_def split: sum.splits option.splits prod.splits
        dest!: load_transaction_frame load_block_frame intro: frame)
  then have tb: "only_configured (snd (load_transaction_and_block w v (chainId proof) h)) c" for h .
  have "only_configured (snd (priv_getTransactionAndBlockInfo w v (chainId proof) h)) c" for h
  proof -
    obtain r2 v2 where l: "load_transaction_and_block w v (chainId proof) h = (r2, v2)"
      by (cases "load_transaction_and_block w v (chainId proof) h")
    with tb [of h] have v2: "only_configured v2 c" by simp
    then have "only_configured (v2\<lparr>priv_logger := x\<rparr>) c" for x
      by (simp add: only_configured_def)
    with l v2 show ?thesis by (simp add: priv_getTransactionAndBlockInfo_def split: sum.splits)
  qed
  then show ?thesis by (simp add: validateChainInclusion_state)
qed

lemma init_only_configured:
  assumes "fst (init w (new_EthereumAnchorValidator endpoint) (Some c)) = Inr ()" and "c \<noteq> []"
  shows "only_configured (snd (init w (new_EthereumAnchorValidator endpoint) (Some c))) c"
proof -
  let ?v = "new_EthereumAnchorValidator endpoint"
  obtain r v1 where g: "priv_getEthProvider ?v c = (r, v1)" by (cases "priv_getEthProvider ?v c")
  have "set (lru_keys (providersCache (snd (priv_getEthProvider ?v c)))) \<subseteq> {c}"
    using lru_set_key_subset [of "providersCache ?v" c]
    by (auto simp: priv_getEthProvider_def lru_get_def lru_find_def new_provider_def Let_def
        new_EthereumAnchorValidator_def new_LRUMap_def lru_keys_def split: option.splits)
  with g have k: "set (lru_keys (providersCache v1)) \<subseteq> {c}" by simp
  from assms g k show ?thesis
    by (auto simp: init_def Let_def only_configured_def split: sum.splits if_splits)
qed

lemma other_chain_not_cached:
  "only_configured v c \<Longrightarrow> c' \<noteq> c \<Longrightarrow> \<not> lru_has (providersCache v) c'"
  using lru_find_None_iff [of "providersCache v" c']
  by (auto simp: only_configured_def lru_has_def)

section \<open>Initialisation\<close>

text \<open>
  Claim C9. \<open>init\<close> with a null chain id succeeds and returns the validator as it was: no
  request is made and no cache changes. On a validator fresh from the constructor the
  configured chain id is therefore still unset, and provider lookup then never fails for
  the reason that only one chain id is supported.
\<close>

theorem init_null:
  "init w v None = (Inr (), v)
   \<and> priv_chainId (snd (init w (new_EthereumAnchorValidator endpoint) None)) = None
   \<and> fst (priv_getEthProvider (snd (init w (new_EthereumAnchorValidator endpoint) None)) c)
        \<noteq> Inl (UnsupportedChain c configured)"
  by (simp add: init_def new_EthereumAnchorValidator_def priv_getEthProvider_def lru_get_def
      lru_find_def new_LRUMap_def new_provider_def Let_def split: option.splits)

section \<open>Conflict resolution\<close>

text \<open>
  Claim C7. For a stream whose tip is \<open>T\<close>, an update commit whose previous-commit link is
  another address \<open>T'\<close> is rejected with the stale-tip reason, and the rejection leaves the
  stream as it was; in particular its log is as long as before.
\<close>

theorem stale_update_rejected:
  assumes "anchor candidate = None" and "tip s = Some T"
    and "previous candidate = Some T'" and "T' \<noteq> T"
  shows "apply_commit validate s candidate = (Reject stale_tip, s)
     \<and> length (log (snd (apply_commit validate s candidate))) = length (log s)"
  using assms by (simp add: apply_commit_def resolve_def)

theorem stale_update_rejected_witness:
  "anchor \<lparr>address = ''c2'', previous = Some ''c0'', payload = ''rejected'', anchor = None\<rparr> = None
   \<and> tip \<lparr>log = [\<lparr>address = ''c0'', previous = None, payload = ''og'', anchor = None\<rparr>,
               \<lparr>address = ''c1'', previous = Some ''c0'', payload = [], anchor = Some
               \<lparr>chainId = ''eip155:1'', txHash = \<lparr>version = 1, bytes = [], digest = [0xab]\<rparr>,
                root = \<lparr>version = 1, bytes = [1, 0x55], digest = []\<rparr>, blockNumber = 7, blockTimestamp = 1000\<rparr>\<rparr>],
        content = ''og'', anchorStatus = ANCHORED\<rparr> = Some ''c1''
   \<and> ''c0'' \<noteq> ''c1''
   \<and> apply_commit (\<lambda>proof. Inr ())
        \<lparr>log = [\<lparr>address = ''c0'', previous = None, payload = ''og'', anchor = None\<rparr>,
               \<lparr>address = ''c1'', previous = Some ''c0'', payload = [], anchor = Some
               \<lparr>chainId = ''eip155:1'', txHash = \<lparr>version = 1, bytes = [], digest = [0xab]\<rparr>,
                root = \<lparr>version = 1, bytes = [1, 0x55], digest = []\<rparr>, blockNumber = 7, blockTimestamp = 1000\<rparr>\<rparr>],
        content = ''og'', anchorStatus = ANCHORED\<rparr>
        \<lparr>address = ''c2'', previous = Some ''c0'', payload = ''rejected'', anchor = None\<rparr>
       = (Reject stale_tip,
        \<lparr>log = [\<lparr>address = ''c0'', previous = None, payload = ''og'', anchor = None\<rparr>,
               \<lparr>address = ''c1'', previous = Some ''c0'', payload = [], anchor = Some
               \<lparr>chainId = ''eip155:1'', txHash = \<lparr>version = 1, bytes = [], digest = [0xab]\<rparr>,
                root = \<lparr>version = 1, bytes = [1, 0x55], digest = []\<rparr>, blockNumber = 7, blockTimestamp = 1000\<rparr>\<rparr>],
        content = ''og'', anchorStatus = ANCHORED\<rparr>)"
  using stale_update_rejected
    [of "\<lparr>address = ''c2'', previous = Some ''c0'', payload = ''rejected'', anchor = None\<rparr>"
        "\<lparr>log = [\<lparr>address = ''c0'', previous = None, payload = ''og'', anchor = None\<rparr>,
               \<lparr>address = ''c1'', previous = Some ''c0'', payload = [], anchor = Some
               \<lparr>chainId = ''eip155:1'', txHash = \<lparr>version = 1, bytes = [], digest = [0xab]\<rparr>,
                root = \<lparr>version = 1, bytes = [1, 0x55], digest = []\<rparr>, blockNumber = 7, blockTimestamp = 1000\<rparr>\<rparr>],
        content = ''og'', anchorStatus = ANCHORED\<rparr>"
        "''c1''" "''c0''" "\<lambda>proof. Inr ()"]
  by (simp add: tip_def)

section \<open>Validation of an anchor proof\<close>

text \<open>
  The text form of a root starts with the multibase prefix \<open>f\<close>, a hexadecimal digit, so
  its value is never \<open>NaN\<close> and \<open>!==\<close> on it is plain inequality.
\<close>

lemma root_value_not_NaN: "parseInt16 (''0x'' @ CHR ''f'' # s) \<noteq> NaN"
  by (simp add: parseInt_defs split: option.splits)

lemma root_strict_neq:
  assumes "cid_toString_base16 r = Inr root16"
  shows "strict_neq a (parseInt16 (''0x'' @ root16)) \<longleftrightarrow> a \<noteq> parseInt16 (''0x'' @ root16)"
proof -
  from assms obtain s where "root16 = CHR ''f'' # s"
    by (auto simp: cid_toString_base16_def split: if_splits)
  then have "parseInt16 (''0x'' @ root16) \<noteq> NaN" using root_value_not_NaN by simp
  then show ?thesis by (auto simp: strict_neq_def)
qed

text \<open>
  The two values are Numbers. A Number keeps 53 significant bits, so two payloads that
  agree in their leading digits have the same value.
\<close>

lemma parseInt16_leading_digits:
  "parseInt16 ''0xf01711220a1b2c3d4e5f60718293a4b5c6d7e8f90a1b2c3d4e5f60718293a4b5c6d7e8f9000''
     = parseInt16 ''0xf01711220a1b2c3d4e5f60718293a4b5c6d7e8f90a1b2c3d4e5f60718293a4b5c6d7e8f9fff''"
  by (simp add: parseInt_defs bit_length.simps)



section \<open>Records that the provider does not return\<close>

text \<open>
  A lookup ends without a record exactly when the cache holds none under the key and the
  provider answers with none.
\<close>

lemma load_transaction_None_iff:
  "fst (load_transaction w v p h) = Inr None \<longleftrightarrow>
     (\<forall>t. lru_find (priv_transactionCache v) h \<noteq> Some (Some t)) \<and> getTransaction w p h = Inr None"
  by (auto simp: load_transaction_def lru_get_def Let_def split: option.splits sum.splits)

lemma load_block_None_iff:
  "fst (load_block w v p h) = Inr None \<longleftrightarrow>
     (\<forall>b. lru_find (priv_blockCache v) h \<noteq> Some (Some b)) \<and> getBlock w p h = Inr None"
  by (auto simp: load_block_def lru_get_def Let_def split: option.splits sum.splits)

lemma validate_transaction_not_found:
  assumes "priv_getEthProvider v (chainId proof) = (Inr p, v1)"
    and "fst (load_transaction w v1 p (tx_hash_text proof)) = Inr None"
  shows "fst (validateChainInclusion w v proof)
     = Inl (FailedToLoadTransaction (tx_hash_text proof) (ethereumRpcEndpoint v = []))"
proof -
  obtain v2 where l: "load_transaction w v1 p (tx_hash_text proof) = (Inr None, v2)"
    using assms(2) by (cases "load_transaction w v1 p (tx_hash_text proof)") simp
  have "ethereumRpcEndpoint v2 = ethereumRpcEndpoint v"
    using load_transaction_frame [OF l] getEthProvider_endpoint [of v "chainId proof"] assms(1)
    by simp
  with assms(1) l show ?thesis
    by (simp add: validateChainInclusion_def priv_getTransactionAndBlockInfo_def
        load_transaction_and_block_def)
qed

lemma validate_block_not_found:
  assumes "priv_getEthProvider v (chainId proof) = (Inr p, v1)"
    and "load_transaction w v1 p (tx_hash_text proof) = (Inr (Some transaction), v2)"
    and "fst (load_block w v2 p (tx_blockHash transaction)) = Inr None"
  shows "fst (validateChainInclusion w v proof)
     = Inl (FailedToLoadBlock (tx_blockNumber transaction) (tx_blockHash transaction)
              (ethereumRpcEndpoint v = []))"
proof -
  obtain v3 where l: "load_block w v2 p (tx_blockHash transaction) = (Inr None, v3)"
    using assms(3) by (cases "load_block w v2 p (tx_blockHash transaction)") simp
  have "ethereumRpcEndpoint v3 = ethereumRpcEndpoint v"
    using load_block_frame [OF l] load_transaction_frame [OF assms(2)]
      getEthProvider_endpoint [of v "chainId proof"] assms(1)
    by simp
  with assms(1,2) l show ?thesis
    by (simp add: validateChainInclusion_def priv_getTransactionAndBlockInfo_def
        load_transaction_and_block_def)
qed

lemma sublist_in_suffix: "sublist xs ys \<Longrightarrow> sublist xs (zs @ ys)"
  using sublist_append by blast

lemma suggestion_in_try_endpoint: "sublist ''Try providing an ethereum rpc endpoint'' try_endpoint"
  unfolding try_endpoint_def
  using sublist_appendI [of "''Try providing an ethereum rpc endpoint''" "''. ''" "[]"] by simp

lemma suggestion_in_message:
  "sublist ''Try providing an ethereum rpc endpoint'' (message (FailedToLoadTransaction h True))"
  "sublist ''Try providing an ethereum rpc endpoint'' (message (FailedToLoadBlock n b True))"
  unfolding message.simps
  by (intro sublist_in_suffix, simp add: suggestion_in_try_endpoint)+

text \<open>
  Claim C6, as the code has it. When no RPC endpoint is configured and the transaction, or
  the block of the transaction, is not found after the cache and the provider have been
  asked, validation fails with an error whose text suggests an endpoint: "Try providing an
  ethereum rpc endpoint".
\<close>

theorem not_found_suggests_endpoint:
  assumes "ethereumRpcEndpoint v = []"
    and "priv_getEthProvider v (chainId proof) = (Inr p, v1)"
  shows "(fst (load_transaction w v1 p (tx_hash_text proof)) = Inr None \<longrightarrow>
            fst (validateChainInclusion w v proof)
              = Inl (FailedToLoadTransaction (tx_hash_text proof) True)
            \<and> sublist ''Try providing an ethereum rpc endpoint''
                 (message (FailedToLoadTransaction (tx_hash_text proof) True)))
       \<and> (load_transaction w v1 p (tx_hash_text proof) = (Inr (Some transaction), v2)
            \<and> fst (load_block w v2 p (tx_blockHash transaction)) = Inr None \<longrightarrow>
            fst (validateChainInclusion w v proof)
              = Inl (FailedToLoadBlock (tx_blockNumber transaction) (tx_blockHash transaction) True)
            \<and> sublist ''Try providing an ethereum rpc endpoint''
                 (message (FailedToLoadBlock (tx_blockNumber transaction)
                    (tx_blockHash transaction) True)))"
  using assms validate_transaction_not_found [OF assms(2), of w]
    validate_block_not_found [OF assms(2), of w transaction v2]
    suggestion_in_message
  by simp

theorem not_found_suggests_endpoint_witness:
  "ethereumRpcEndpoint (new_EthereumAnchorValidator []) = []
   \<and> fst (priv_getEthProvider (new_EthereumAnchorValidator []) ''eip155:1'')
        = Inr (DefaultProvider ''mainnet'')
   \<and> getTransaction sample_rpc (DefaultProvider ''mainnet'') ''0xff'' = Inr None
   \<and> fst (validateChainInclusion sample_rpc (new_EthereumAnchorValidator [])
        (sample_proof\<lparr>txHash := \<lparr>version = 1, bytes = [], digest = [0xff]\<rparr>\<rparr>))
        = Inl (FailedToLoadTransaction ''0xff'' True)
   \<and> sublist ''Try providing an ethereum rpc endpoint'' (message (FailedToLoadTransaction ''0xff'' True))
   \<and> getBlock sample_rpc (DefaultProvider ''mainnet'') ''0xb2'' = Inr None
   \<and> fst (validateChainInclusion sample_rpc (new_EthereumAnchorValidator [])
        (sample_proof\<lparr>txHash := \<lparr>version = 1, bytes = [], digest = [0xee]\<rparr>\<rparr>))
        = Inl (FailedToLoadBlock 8 ''0xb2'' True)
   \<and> sublist ''Try providing an ethereum rpc endpoint'' (message (FailedToLoadBlock 8 ''0xb2'' True))"
proof -
  let ?v = "new_EthereumAnchorValidator []"
  let ?p1 = "sample_proof\<lparr>txHash := \<lparr>version = 1, bytes = [], digest = [0xff]\<rparr>\<rparr>"
  let ?p2 = "sample_proof\<lparr>txHash := \<lparr>version = 1, bytes = [], digest = [0xee]\<rparr>\<rparr>"
  let ?tx = "\<lparr>tx_data = ''0xf0155'', tx_blockNumber = 8, tx_blockHash = ''0xb2''\<rparr>"
  obtain v1 where g: "priv_getEthProvider ?v ''eip155:1'' = (Inr (DefaultProvider ''mainnet''), v1)"
    by (simp add: validator_defs)
  have g1: "priv_getEthProvider ?v (chainId ?p1) = (Inr (DefaultProvider ''mainnet''), v1)"
    and g2: "priv_getEthProvider ?v (chainId ?p2) = (Inr (DefaultProvider ''mainnet''), v1)"
    using g by (simp_all add: sample_proof_def)
  have h1: "tx_hash_text ?p1 = ''0xff''" and h2: "tx_hash_text ?p2 = ''0xee''"
    by (simp_all add: sample_proof_def tx_hash_text_def toString_base16_def hex_char_def)
  have c: "priv_transactionCache v1 = \<lparr>limit = 50, entries = []\<rparr>"
    and b: "priv_blockCache v1 = \<lparr>limit = 50, entries = []\<rparr>"
    using g by (auto simp: validator_defs)
  have e: "ethereumRpcEndpoint ?v = []" by (simp add: new_EthereumAnchorValidator_def)
  have t1: "fst (load_transaction sample_rpc v1 (DefaultProvider ''mainnet'') (tx_hash_text ?p1)) = Inr None"
    unfolding h1 by (simp add: load_transaction_None_iff c lru_find_def sample_rpc_def)
  obtain v2 where t2: "load_transaction sample_rpc v1 (DefaultProvider ''mainnet'') (tx_hash_text ?p2)
      = (Inr (Some ?tx), v2)" and b2: "priv_blockCache v2 = priv_blockCache v1"
    unfolding h2 by (simp add: load_transaction_def lru_get_def lru_find_def c sample_rpc_def)
  have t3: "fst (load_block sample_rpc v2 (DefaultProvider ''mainnet'') (tx_blockHash ?tx)) = Inr None"
    by (simp add: load_block_None_iff b b2 lru_find_def sample_rpc_def)
  from not_found_suggests_endpoint [OF e g1, of sample_rpc] t1 h1
  have r1: "fst (validateChainInclusion sample_rpc ?v ?p1) = Inl (FailedToLoadTransaction ''0xff'' True)"
    "sublist ''Try providing an ethereum rpc endpoint'' (message (FailedToLoadTransaction ''0xff'' True))"
    by simp_all
  from not_found_suggests_endpoint [OF e g2, of sample_rpc ?tx v2] t2 t3
  have r2: "fst (validateChainInclusion sample_rpc ?v ?p2) = Inl (FailedToLoadBlock 8 ''0xb2'' True)"
    "sublist ''Try providing an ethereum rpc endpoint'' (message (FailedToLoadBlock 8 ''0xb2'' True))"
    by simp_all
  from g e r1 r2 show ?thesis by (simp add: sample_rpc_def)
qed

text \<open>
  With an endpoint configured the error is the plain one: the source adds the suggestion
  under \<open>!this.ethereumRpcEndpoint\<close> only.
\<close>

theorem configured_endpoint_not_suggested:
  "getTransaction sample_rpc (JsonRpcProvider ''http://localhost:8545'') ''0xff'' = Inr None
   \<and> fst (validateChainInclusion sample_rpc (new_EthereumAnchorValidator ''http://localhost:8545'')
        (sample_proof\<lparr>txHash := \<lparr>version = 1, bytes = [], digest = [0xff]\<rparr>\<rparr>))
        = Inl (FailedToLoadTransaction ''0xff'' False)
   \<and> message (FailedToLoadTransaction ''0xff'' False)
        = ''Failed to load transaction data for transaction 0xff''
   \<and> \<not> sublist ''endpoint'' (message (FailedToLoadTransaction ''0xff'' False))"
  by (simp add: validator_defs sample_rpc_def sample_proof_def sublist_Cons_right)

section \<open>The errors of a mismatch\<close>

lemma validate_after_fetch:
  assumes "fst (priv_getTransactionAndBlockInfo w v (chainId proof) (tx_hash_text proof))
      = Inr (transaction, block)"
    and "cid_toString_base16 (root proof) = Inr root16"
  shows "fst (validateChainInclusion w v proof) =
     (if parseInt16 (tx_data transaction) \<noteq> parseInt16 (''0x'' @ root16)
      then Inl (RootNotInTransaction (cid_toString (root proof)))
      else if blockNumber proof \<noteq> tx_blockNumber transaction
      then Inl (BlockNumbersDiffer (blockNumber proof) (tx_blockNumber transaction))
      else if blockTimestamp proof \<noteq> blk_timestamp block
      then Inl (BlockTimestampsDiffer (blockTimestamp proof) (blk_timestamp block))
      else Inr ())"
proof -
  obtain v1 where "priv_getTransactionAndBlockInfo w v (chainId proof) (tx_hash_text proof)
      = (Inr (transaction, block), v1)"
    using assms(1) by (cases "priv_getTransactionAndBlockInfo w v (chainId proof) (tx_hash_text proof)") simp
  then show ?thesis
    using assms(2) root_strict_neq [OF assms(2)]
    by (simp add: validateChainInclusion_def Let_def)
qed

lemma proof_value_in_message:
  "sublist r (message (RootNotInTransaction r))"
  "sublist (show_int a) (message (BlockNumbersDiffer a b))"
  "sublist (show_int a) (message (BlockTimestampsDiffer a b))"
  unfolding message.simps by (rule sublist_appendI)+

lemma chain_value_in_message:
  "sublist (show_int b) (message (BlockNumbersDiffer a b))"
  "sublist (show_int b) (message (BlockTimestampsDiffer a b))"
  unfolding message.simps by (intro sublist_in_suffix, simp)+

lemma field_in_message:
  "prefix ''The root CID '' (message (RootNotInTransaction r))"
  "prefix ''Block numbers are not the same.'' (message (BlockNumbersDiffer a b))"
  "prefix ''Block timestamps are not the same.'' (message (BlockTimestampsDiffer a b))"
  by simp_all

lemma messages_distinct:
  "message (RootNotInTransaction r) \<noteq> message (BlockNumbersDiffer a b)"
  "message (RootNotInTransaction r) \<noteq> message (BlockTimestampsDiffer a b)"
  "message (BlockNumbersDiffer a b) \<noteq> message (BlockTimestampsDiffer c d)"
  by simp_all

lemma sample_fetch:
  "fst (priv_getTransactionAndBlockInfo sample_rpc (new_EthereumAnchorValidator []) ''eip155:1'' ''0xab'')
     = Inr (\<lparr>tx_data = ''0xf0155'', tx_blockNumber = 7, tx_blockHash = ''0xb1''\<rparr>,
            \<lparr>blk_timestamp = 1000\<rparr>)"
  by (simp add: validator_defs sample_rpc_def)

text \<open>
  Claim C5, as the code has it. Once the transaction and the block are there, a
  disagreement is reported by one of three errors, checked in the order root, block number,
  block timestamp. Their texts differ from one another and each starts by naming its field.
  The texts for the block number and for the block timestamp contain both values, the
  proof's and the chain's; the text for the root contains the root of the proof.
\<close>

theorem mismatch_errors:
  assumes "fst (priv_getTransactionAndBlockInfo w v (chainId proof) (tx_hash_text proof))
      = Inr (transaction, block)"
    and "cid_toString_base16 (root proof) = Inr root16"
  shows "(parseInt16 (''0x'' @ root16) \<noteq> parseInt16 (tx_data transaction) \<longrightarrow>
            fst (validateChainInclusion w v proof)
              = Inl (RootNotInTransaction (cid_toString (root proof)))
            \<and> prefix ''The root CID '' (message (RootNotInTransaction (cid_toString (root proof))))
            \<and> sublist (cid_toString (root proof))
                 (message (RootNotInTransaction (cid_toString (root proof)))))
       \<and> (parseInt16 (''0x'' @ root16) = parseInt16 (tx_data transaction)
            \<and> blockNumber proof \<noteq> tx_blockNumber transaction \<longrightarrow>
            fst (validateChainInclusion w v proof)
              = Inl (BlockNumbersDiffer (blockNumber proof) (tx_blockNumber transaction))
            \<and> prefix ''Block numbers are not the same.''
                 (message (BlockNumbersDiffer (blockNumber proof) (tx_blockNumber transaction)))
            \<and> sublist (show_int (blockNumber proof))
                 (message (BlockNumbersDiffer (blockNumber proof) (tx_blockNumber transaction)))
            \<and> sublist (show_int (tx_blockNumber transaction))
                 (message (BlockNumbersDiffer (blockNumber proof) (tx_blockNumber transaction))))
       \<and> (parseInt16 (''0x'' @ root16) = parseInt16 (tx_data transaction)
            \<and> blockNumber proof = tx_blockNumber transaction
            \<and> blockTimestamp proof \<noteq> blk_timestamp block \<longrightarrow>
            fst (validateChainInclusion w v proof)
              = Inl (BlockTimestampsDiffer (blockTimestamp proof) (blk_timestamp block))
            \<and> prefix ''Block timestamps are not the same.''
                 (message (BlockTimestampsDiffer (blockTimestamp proof) (blk_timestamp block)))
            \<and> sublist (show_int (blockTimestamp proof))
                 (message (BlockTimestampsDiffer (blockTimestamp proof) (blk_timestamp block)))
            \<and> sublist (show_int (blk_timestamp block))
                 (message (BlockTimestampsDiffer (blockTimestamp proof) (blk_timestamp block))))
       \<and> message (RootNotInTransaction r) \<noteq> message (BlockNumbersDiffer a b)
       \<and> message (RootNotInTransaction r) \<noteq> message (BlockTimestampsDiffer a b)
       \<and> message (BlockNumbersDiffer a b) \<noteq> message (BlockTimestampsDiffer c d)"
  using validate_after_fetch [OF assms] proof_value_in_message chain_value_in_message
    field_in_message messages_distinct
  by (simp del: message.simps)

theorem mismatch_errors_witness:
  "fst (validateChainInclusion sample_rpc (new_EthereumAnchorValidator [])
          (sample_proof\<lparr>root := \<lparr>version = 1, bytes = [0x01, 0x56], digest = []\<rparr>\<rparr>))
     = Inl (RootNotInTransaction ''bafla'')
   \<and> fst (validateChainInclusion sample_rpc (new_EthereumAnchorValidator [])
          (sample_proof\<lparr>blockNumber := 8\<rparr>))
     = Inl (BlockNumbersDiffer 8 7)
   \<and> sublist (show_int 8) (message (BlockNumbersDiffer 8 7))
   \<and> sublist (show_int 7) (message (BlockNumbersDiffer 8 7))
   \<and> fst (validateChainInclusion sample_rpc (new_EthereumAnchorValidator [])
          (sample_proof\<lparr>blockTimestamp := 999\<rparr>))
     = Inl (BlockTimestampsDiffer 999 1000)
   \<and> sublist (show_int 999) (message (BlockTimestampsDiffer 999 1000))
   \<and> sublist (show_int 1000) (message (BlockTimestampsDiffer 999 1000))"
proof -
  let ?v = "new_EthereumAnchorValidator []"
  let ?tx = "\<lparr>tx_data = ''0xf0155'', tx_blockNumber = 7, tx_blockHash = ''0xb1''\<rparr>"
  let ?b = "\<lparr>blk_timestamp = 1000\<rparr>"
  let ?p1 = "sample_proof\<lparr>root := \<lparr>version = 1, bytes = [0x01, 0x56], digest = []\<rparr>\<rparr>"
  let ?p2 = "sample_proof\<lparr>blockNumber := 8\<rparr>"
  let ?p3 = "sample_proof\<lparr>blockTimestamp := 999\<rparr>"
  have h: "tx_hash_text ?p1 = ''0xab''" "tx_hash_text ?p2 = ''0xab''" "tx_hash_text ?p3 = ''0xab''"
    "chainId ?p1 = ''eip155:1''" "chainId ?p2 = ''eip155:1''" "chainId ?p3 = ''eip155:1''"
    by (simp_all add: sample_proof_def tx_hash_text_def toString_base16_def hex_char_def)
  have f1: "fst (priv_getTransactionAndBlockInfo sample_rpc ?v (chainId ?p1) (tx_hash_text ?p1)) = Inr (?tx, ?b)"
    and f2: "fst (priv_getTransactionAndBlockInfo sample_rpc ?v (chainId ?p2) (tx_hash_text ?p2)) = Inr (?tx, ?b)"
    and f3: "fst (priv_getTransactionAndBlockInfo sample_rpc ?v (chainId ?p3) (tx_hash_text ?p3)) = Inr (?tx, ?b)"
    unfolding h by (rule sample_fetch)+
  have r1: "cid_toString_base16 (root ?p1) = Inr ''f0156''"
    and r2: "cid_toString_base16 (root ?p2) = Inr ''f0155''"
    and r3: "cid_toString_base16 (root ?p3) = Inr ''f0155''"
    by (simp_all add: sample_proof_def cid_toString_base16_def toString_base16_def hex_char_def)
  have n: "parseInt16 ''0xf0156'' \<noteq> parseInt16 ''0xf0155''"
    by (simp add: parseInt_defs)
  have t: "cid_toString (root ?p1) = ''bafla''"
    by (simp add: sample_proof_def cid_toString_def toString_base32_def byte_bits_def
        bits_value_def base32_char_def)
  from mismatch_errors [OF f1 r1] n t
  have a: "fst (validateChainInclusion sample_rpc ?v ?p1) = Inl (RootNotInTransaction ''bafla'')"
    by simp
  from mismatch_errors [OF f2 r2]
  have b: "fst (validateChainInclusion sample_rpc ?v ?p2) = Inl (BlockNumbersDiffer 8 7)"
    "sublist (show_int 8) (message (BlockNumbersDiffer 8 7))"
    "sublist (show_int 7) (message (BlockNumbersDiffer 8 7))"
    by (simp_all add: sample_proof_def del: message.simps)
  from mismatch_errors [OF f3 r3]
  have c: "fst (validateChainInclusion sample_rpc ?v ?p3) = Inl (BlockTimestampsDiffer 999 1000)"
    "sublist (show_int 999) (message (BlockTimestampsDiffer 999 1000))"
    "sublist (show_int 1000) (message (BlockTimestampsDiffer 999 1000))"
    by (simp_all add: sample_proof_def del: message.simps)
  from a b c show ?thesis by blast
qed

text \<open>
  The text for the root holds one of the two values only: the transaction's data is not
  in it, neither as text nor as a number.
\<close>

theorem root_error_lacks_transaction_data:
  "getTransaction sample_rpc (DefaultProvider ''mainnet'') ''0xab''
     = Inr (Some \<lparr>tx_data = ''0xf0155'', tx_blockNumber = 7, tx_blockHash = ''0xb1''\<rparr>)
   \<and> fst (validateChainInclusion sample_rpc (new_EthereumAnchorValidator [])
          (sample_proof\<lparr>root := \<lparr>version = 1, bytes = [0x01, 0x56], digest = []\<rparr>\<rparr>))
     = Inl (RootNotInTransaction ''bafla'')
   \<and> message (RootNotInTransaction ''bafla'') = ''The root CID bafla is not in the transaction''
   \<and> \<not> sublist ''f0155'' (message (RootNotInTransaction ''bafla''))
   \<and> \<not> sublist ''983381'' (message (RootNotInTransaction ''bafla''))"
  by (simp add: validator_defs sample_rpc_def sample_proof_def parseInt_defs strict_neq_def
      cid_toString_def toString_base32_def byte_bits_def bits_value_def base32_char_def
      sublist_Cons_right)

section \<open>What a failed fetch leaves in the caches\<close>

text \<open>
  The provider's answer is stored before it is looked at (lines 98 to 99, 114 to 115 of
  the source), so an empty answer is stored too: after a lookup that ended without a
  record, the cache holds the key, with \<open>null\<close> as its value.
\<close>

lemma map_of_filter_absent: "map_of (filter (\<lambda>e. fst e \<noteq> k) es) k = None"
  by (induction es) auto

lemma map_of_tl_snoc:
  assumes "k \<notin> fst ` set es" and "es \<noteq> []"
  shows "map_of (tl (es @ [(k, x)])) k = Some x"
proof -
  from assms(2) obtain e rest where es: "es = e # rest" by (cases es) auto
  with assms(1) have "k \<notin> fst ` set rest" by auto
  then have "map_of rest k = None" by (simp add: map_of_eq_None_iff)
  with es show ?thesis by (simp add: map_add_def)
qed

lemma lru_set_find_same:
  assumes "0 < limit m"
  shows "lru_find (lru_set m k x) k = Some x"
proof (cases "lru_find m k")
  case None
  then have m: "map_of (entries m) k = None" by (simp add: lru_find_def)
  then have k: "k \<notin> fst ` set (entries m)" by (simp add: map_of_eq_None_iff)
  show ?thesis
  proof (cases "entries m = []")
    case True
    with None assms show ?thesis by (simp add: lru_set_def lru_find_def Let_def)
  next
    case False
    have "map_of (entries m @ [(k, x)]) k = Some x" using m by (simp add: map_add_def)
    with None map_of_tl_snoc [OF k False, of x] show ?thesis
      by (simp add: lru_set_def Let_def lru_find_def [of "m\<lparr>entries := _\<rparr>"])
  qed
next
  case (Some old)
  then show ?thesis
    by (simp add: lru_set_def lru_find_def mark_used_def map_add_def map_of_filter_absent)
qed

lemma failed_fetch_stores_key:
  assumes "fst (load_transaction w v p h) = Inr None"
    and "0 < limit (priv_transactionCache v)"
  shows "lru_find (priv_transactionCache (snd (load_transaction w v p h))) h = Some None"
proof -
  from assms(1) have g: "getTransaction w p h = Inr None"
    and c: "\<forall>t. lru_find (priv_transactionCache v) h \<noteq> Some (Some t)"
    by (simp_all add: load_transaction_None_iff)
  obtain r cache where l: "lru_get (priv_transactionCache v) h = (r, cache)"
    by (cases "lru_get (priv_transactionCache v) h")
  from lru_get_eq [OF l] c have r: "r = None \<or> r = Some None"
    by (metis option.exhaust)
  from lru_get_eq [OF l] assms(2) have "0 < limit cache" by (simp add: lru_get_limit)
  then have "lru_find (lru_set cache h None) h = Some None" by (rule lru_set_find_same)
  with l g r show ?thesis by (auto simp: load_transaction_def Let_def)
qed

text \<open>
  Claim C2 asks that a fetch which produces no record leaves the caches without an entry
  for the failed key. On a fresh validator whose provider has no transaction \<open>0xff\<close>,
  \<open>_getTransactionAndBlockInfo\<close> throws the not-found error and the transaction cache,
  empty before, holds the key \<open>0xff\<close> afterwards; for the transaction \<open>0xee\<close>, whose block
  \<open>0xb2\<close> the provider does not return, the block cache holds \<open>0xb2\<close> afterwards.
\<close>

theorem failed_fetch_is_cached:
  "priv_getTransactionAndBlockInfo sample_rpc (new_EthereumAnchorValidator []) ''eip155:1'' ''0xff''
     = (Inl (FailedToLoadTransaction ''0xff'' True),
        \<lparr>ethereumRpcEndpoint = [], priv_chainId = None,
         providersCache = \<lparr>limit = 100, entries = [(''eip155:1'', DefaultProvider ''mainnet'')]\<rparr>,
         priv_transactionCache = \<lparr>limit = 50, entries = [(''0xff'', None)]\<rparr>,
         priv_blockCache = \<lparr>limit = 50, entries = []\<rparr>,
         priv_logger = [''Error loading transaction info for transaction 0xff from Ethereum: Error: Failed to load transaction data for transaction 0xff. Try providing an ethereum rpc endpoint''],
         requests = [GetTransaction (DefaultProvider ''mainnet'') ''0xff'']\<rparr>)
   \<and> lru_has (priv_transactionCache (snd (priv_getTransactionAndBlockInfo sample_rpc
          (new_EthereumAnchorValidator []) ''eip155:1'' ''0xff''))) ''0xff''
   \<and> \<not> lru_has (priv_transactionCache (new_EthereumAnchorValidator [])) ''0xff''
   \<and> fst (priv_getTransactionAndBlockInfo sample_rpc (new_EthereumAnchorValidator []) ''eip155:1'' ''0xee'')
        = Inl (FailedToLoadBlock 8 ''0xb2'' True)
   \<and> entries (priv_blockCache (snd (priv_getTransactionAndBlockInfo sample_rpc
          (new_EthereumAnchorValidator []) ''eip155:1'' ''0xee''))) = [(''0xb2'', None)]
   \<and> lru_has (priv_blockCache (snd (priv_getTransactionAndBlockInfo sample_rpc
          (new_EthereumAnchorValidator []) ''eip155:1'' ''0xee''))) ''0xb2''"
  by (simp add: validator_defs sample_rpc_def lru_has_def try_endpoint_def)

end
